theory Spec2Isabelle
  imports Complex_Main "HOL-Library.Product_Lexorder"
begin

section \<open>Conventions of the embedding\<close>

text \<open>
  The development embeds the numerical core of the risk-neutral-density pipeline
  (\<^verbatim>\<open>src/es_options\<close>). NumPy arrays of \<^verbatim>\<open>float64\<close> are lists of
  real numbers, so rounding is idealised away, except where a result depends on it: there
  the rounding is a parameter. Python exceptions are values of the type \<open>exn\<close>; a
  function that may raise returns \<open>exn + 'a\<close>, with \<open>Inl\<close> the exception. Dates are
  day numbers (\<open>int\<close>).

  A float operation whose result is \<^verbatim>\<open>inf\<close> or \<^verbatim>\<open>nan\<close> (a division by zero, the
  logarithm of a number that is not positive) has no real value. NumPy raises nothing
  there: the source goes on with that value. A numerical function of the model that
  meets such an operation returns \<open>Inl NonFinite\<close>, which is not an exception of the
  source but the mark that its result lies outside the real numbers; the model follows
  the source no further on that path. No statement below is made about a \<open>NonFinite\<close>
  outcome other than that it is reached or not, and no function that handles
  exceptions treats it as one.
\<close>

datatype exn =
    ValueError string
  | KeyError string
  | IndexError
  | Exception string
  | NonFinite


section \<open>Numerical kernel (\<^verbatim>\<open>utils/math_utils.py\<close>)\<close>

text \<open>\<^verbatim>\<open>np.trapz(y, x)\<close>: the composite trapezoidal rule
  \<open>\<Sum> (x\<^sub>i\<^sub>+\<^sub>1 - x\<^sub>i) * (y\<^sub>i + y\<^sub>i\<^sub>+\<^sub>1) / 2\<close>; it is 0 on fewer than two points.\<close>

fun trapz :: "real list \<Rightarrow> real list \<Rightarrow> real" where
  "trapz (y0 # y1 # ys) (x0 # x1 # xs) =
     (x1 - x0) * (y0 + y1) / 2 + trapz (y1 # ys) (x1 # xs)"
| "trapz _ _ = 0"

text \<open>\<^verbatim>\<open>np.linspace(a, b, n)\<close>.\<close>

definition linspace :: "real \<Rightarrow> real \<Rightarrow> nat \<Rightarrow> real list" where
  "linspace a b n = map (\<lambda>i. a + real i * ((b - a) / real (n - 1))) [0..<n]"

definition default_min_value :: real where
  "default_min_value = 1 / 10 ^ 10"

text \<open>
  \<^verbatim>\<open>normalize_density(density, x, min_value)\<close>. The fallback reads \<^verbatim>\<open>x[-1]\<close> and
  \<^verbatim>\<open>x[0]\<close> (an \<^verbatim>\<open>IndexError\<close> on an empty grid) and divides by their difference;
  on a grid of width 0 the source returns an array of \<^verbatim>\<open>inf\<close>.
\<close>

definition normalize_density :: "real list \<Rightarrow> real list \<Rightarrow> real \<Rightarrow> exn + real list" where
  "normalize_density density0 x min_value =
     (let density = map (\<lambda>d. max d min_value) density0;
          integral = trapz density x
      in if integral > 0 then Inr (map (\<lambda>d. d / integral) density)
         else if x = [] then Inl IndexError
         else if last x - hd x = 0 then Inl NonFinite
         else Inr (map (\<lambda>_. 1 / (last x - hd x)) density))"

record moments =
  m_mean :: real
  m_std :: real
  m_skewness :: real
  m_kurtosis :: real

definition compute_density_moments :: "real list \<Rightarrow> real list \<Rightarrow> moments" where
  "compute_density_moments density x =
     (let mean = trapz (map2 (\<lambda>xi d. xi * d) x density) x;
          variance = trapz (map2 (\<lambda>xi d. (xi - mean) ^ 2 * d) x density) x;
          std = sqrt (max variance 0)
      in if std > 0
         then \<lparr>m_mean = mean, m_std = std,
               m_skewness = trapz (map2 (\<lambda>xi d. (xi - mean) ^ 3 * d) x density) x / std ^ 3,
               m_kurtosis = trapz (map2 (\<lambda>xi d. (xi - mean) ^ 4 * d) x density) x / std ^ 4 - 3\<rparr>
         else \<lparr>m_mean = mean, m_std = std, m_skewness = 0, m_kurtosis = 0\<rparr>)"







section \<open>RND results (\<^verbatim>\<open>metrics/rnd_extractor.py\<close>)\<close>

record data_quality =
  num_raw_options :: nat
  num_otm_options :: nat
  dq_num_calls :: nat
  dq_num_puts_synthetic :: nat
  dq_strike_range :: "real \<times> real"
  dq_strike_coverage :: real
  dq_avg_strike_gap :: real
  dq_max_strike_gap :: real
  dq_moneyness_range :: "real \<times> real"
  dq_quality_score :: real

record rnd_result =
  strikes :: "real list"
  density :: "real list"
  rnd_expiry :: int
  time_to_expiry :: real
  rnd_spot_price :: real
  mean :: real
  std :: real
  skewness :: real
  kurtosis :: real
  data_quality :: "data_quality option"

text \<open>Boolean-mask indexing \<^verbatim>\<open>a[mask]\<close>.\<close>

definition select :: "bool list \<Rightarrow> 'a list \<Rightarrow> 'a list" where
  "select msk xs = map snd (filter fst (zip msk xs))"

text \<open>
  \<^verbatim>\<open>RNDResult.probability_below\<close>. The mask is computed from the strikes; indexing the
  density with it raises \<^verbatim>\<open>IndexError\<close> when the two arrays differ in length, but
  only after the empty-mask test.
\<close>

definition probability_below :: "rnd_result \<Rightarrow> real \<Rightarrow> exn + real" where
  "probability_below r strike =
     (let msk = map (\<lambda>s. s \<le> strike) (strikes r)
      in if \<not> list_ex id msk then Inr 0
         else if length (density r) \<noteq> length msk then Inl IndexError
         else Inr (trapz (select msk (density r)) (select msk (strikes r))))"

definition probability_above :: "rnd_result \<Rightarrow> real \<Rightarrow> exn + real" where
  "probability_above r strike =
     (case probability_below r strike of Inl e \<Rightarrow> Inl e | Inr p \<Rightarrow> Inr (1 - p))"

section \<open>Smoothing results (\<^verbatim>\<open>processing/smoothing.py\<close>)\<close>

text \<open>
  The handle of SciPy's \<^verbatim>\<open>UnivariateSpline\<close>, a library object: evaluation, and
  \<^verbatim>\<open>derivative(n)\<close>, which yields the n-th derivative as a function or raises.
\<close>

record spline_handle =
  sp_eval :: "real \<Rightarrow> real"
  sp_derivative :: "nat \<Rightarrow> exn + (real \<Rightarrow> real)"

text \<open>
  \<^verbatim>\<open>SmoothingResult\<close>. The callable \<^verbatim>\<open>smooth_fn\<close> works elementwise on arrays, so
  it is a function on one strike, mapped over the array by its callers.
\<close>

record smoothing_result =
  sr_strikes :: "real list"
  prices :: "real list"
  smooth_fn :: "real \<Rightarrow> real"
  spot_price :: real
  strike_min :: real
  strike_max :: real
  spline :: "spline_handle option"

text \<open>\<^verbatim>\<open>__post_init__\<close>: a bound equal to 0.0 is taken from the samples
  (\<^verbatim>\<open>min\<close> and \<^verbatim>\<open>max\<close> of an empty array raise \<^verbatim>\<open>ValueError\<close>).\<close>

definition post_init :: "smoothing_result \<Rightarrow> exn + smoothing_result" where
  "post_init s =
     (if (strike_min s = 0 \<or> strike_max s = 0) \<and> sr_strikes s = []
      then Inl (ValueError ''zero-size array to reduction operation'')
      else Inr (s\<lparr>strike_min := (if strike_min s = 0 then Min (set (sr_strikes s)) else strike_min s),
                 strike_max := (if strike_max s = 0 then Max (set (sr_strikes s)) else strike_max s)\<rparr>))"

definition get_strike_grid :: "smoothing_result \<Rightarrow> nat \<Rightarrow> real list" where
  "get_strike_grid s num_points = linspace (strike_min s) (strike_max s) num_points"

section \<open>RND extraction (\<^verbatim>\<open>metrics/rnd_extractor.py\<close>)\<close>

record rnd_extractor =
  ex_r :: real
  num_points :: nat


text \<open>The three-point stencil \<open>(p\<^sub>i\<^sub>+\<^sub>1 - 2 p\<^sub>i + p\<^sub>i\<^sub>-\<^sub>1) / dK\<^sup>2\<close>.\<close>

definition stencil :: "real list \<Rightarrow> real \<Rightarrow> nat \<Rightarrow> real" where
  "stencil p dK i = (p ! (i + 1) - 2 * p ! i + p ! (i - 1)) / dK ^ 2"

text \<open>
  \<^verbatim>\<open>RNDExtractor._finite_diff_2nd\<close>: \<^verbatim>\<open>strikes[1]\<close> and \<^verbatim>\<open>prices[2]\<close> raise
  \<^verbatim>\<open>IndexError\<close> on fewer than three points; the first and the last cell copy the
  nearest interior stencil. With a zero step the source divides by zero and returns an
  array of \<^verbatim>\<open>inf\<close> and \<^verbatim>\<open>nan\<close>.
\<close>

definition finite_diff_2nd :: "(real \<Rightarrow> real) \<Rightarrow> real list \<Rightarrow> exn + real list" where
  "finite_diff_2nd C ks =
     (if length ks < 3 then Inl IndexError
      else let dK = ks ! 1 - ks ! 0;
               ps = map C ks;
               n = length ks
           in if dK = 0 then Inl NonFinite
              else Inr (stencil ps dK 1 # map (stencil ps dK) [1..<n - 1] @ [stencil ps dK (n - 2)]))"

text \<open>
  The spline path of \<^verbatim>\<open>_compute_density\<close>, inside its \<^verbatim>\<open>try\<close>: \<open>Inl\<close> is an
  exception of \<^verbatim>\<open>derivative\<close>, which the caller catches. On a strike that is not
  positive the logarithm is \<^verbatim>\<open>nan\<close> or \<^verbatim>\<open>-inf\<close>; that is no exception, so it is
  reported inside the \<open>Inr\<close>. What the source returns from there depends on SciPy's
  spline at \<^verbatim>\<open>nan\<close> and \<^verbatim>\<open>-inf\<close> (when it propagates the \<^verbatim>\<open>nan\<close> of a negative strike,
  the integral in \<^verbatim>\<open>normalize_density\<close> is \<^verbatim>\<open>nan\<close> and the uniform fallback is
  returned); the model does not follow it.
\<close>

definition spline_path :: "spline_handle \<Rightarrow> real list \<Rightarrow> exn + (exn + real list)" where
  "spline_path sp ks =
     (case sp_derivative sp 1 of
        Inl e \<Rightarrow> Inl e
      | Inr d1 \<Rightarrow>
          (case sp_derivative sp 2 of
             Inl e \<Rightarrow> Inl e
           | Inr d2 \<Rightarrow>
               Inr (if list_ex (\<lambda>K. K \<le> 0) ks then Inl NonFinite
                    else Inr (map (\<lambda>K. (d2 (ln K) - d1 (ln K)) / K ^ 2) ks))))"

text \<open>The second derivative \<^verbatim>\<open>d2C\<close> that \<^verbatim>\<open>_compute_density\<close> normalises.\<close>

definition second_derivative ::
  "(real \<Rightarrow> real) \<Rightarrow> real list \<Rightarrow> smoothing_result option \<Rightarrow> exn + real list" where
  "second_derivative C ks smooth_result =
     (case smooth_result of
        None \<Rightarrow> finite_diff_2nd C ks
      | Some s \<Rightarrow>
          (case spline s of
             None \<Rightarrow> finite_diff_2nd C ks
           | Some sp \<Rightarrow>
               (case spline_path sp ks of
                  Inl e \<Rightarrow> finite_diff_2nd C ks
                | Inr d \<Rightarrow> d)))"

definition compute_density ::
  "rnd_extractor \<Rightarrow> (real \<Rightarrow> real) \<Rightarrow> real list \<Rightarrow> real \<Rightarrow> smoothing_result option
     \<Rightarrow> exn + real list" where
  "compute_density ex C ks T smooth_result =
     (case second_derivative C ks smooth_result of
        Inl e \<Rightarrow> Inl e
      | Inr d2C \<Rightarrow> normalize_density (map (\<lambda>d. exp (ex_r ex * T) * d) d2C) ks default_min_value)"

text \<open>
  \<^verbatim>\<open>RNDExtractor.extract\<close> (named \<open>extract_rnd\<close>, since \<open>extract\<close> is a keyword).
  \<open>show_date\<close> renders a date for the message of the \<^verbatim>\<open>ValueError\<close>.
\<close>

definition extract_rnd ::
  "(int \<Rightarrow> string) \<Rightarrow> rnd_extractor \<Rightarrow> smoothing_result \<Rightarrow> int \<Rightarrow> int \<Rightarrow> exn + rnd_result" where
  "extract_rnd show_date ex s expiry trade_date =
     (let T = real_of_int (expiry - trade_date) / 365
      in if T \<le> 0
         then Inl (ValueError (''Expiry '' @ show_date expiry @ '' must be after trade date ''
                     @ show_date trade_date))
         else let ks = get_strike_grid s (num_points ex)
              in case compute_density ex (smooth_fn s) ks T (Some s) of
                   Inl e \<Rightarrow> Inl e
                 | Inr dens \<Rightarrow>
                     (let m = compute_density_moments dens ks
                      in Inr \<lparr>strikes = ks, density = dens, rnd_expiry = expiry,
                              time_to_expiry = T, rnd_spot_price = spot_price s,
                              mean = m_mean m, std = m_std m, skewness = m_skewness m,
                              kurtosis = m_kurtosis m, data_quality = None\<rparr>))"

text \<open>
  The density of section 4.5 of the specification, written from its words: the chain rule
  \<open>d\<^sup>2C/dK\<^sup>2 = (C''(log K) - C'(log K)) / K\<^sup>2\<close> on the two log-strike derivatives of
  the spline, scaled by \<open>e\<^sup>r\<^sup>T\<close>. It is compared with \<open>compute_density\<close> below.
\<close>

definition bl_density_spec :: "real \<Rightarrow> real \<Rightarrow> (real \<Rightarrow> real) \<Rightarrow> (real \<Rightarrow> real) \<Rightarrow> real list \<Rightarrow> real list" where
  "bl_density_spec r T d1 d2 ks = map (\<lambda>K. exp (r * T) * ((d2 (ln K) - d1 (ln K)) / K ^ 2)) ks"

section \<open>Chain quality metrics (\<^verbatim>\<open>processing/chain_cleaner.py\<close>)\<close>

record chain_quality_metrics =
  num_raw :: nat
  num_after_clean :: nat
  num_otm :: nat
  num_calls :: nat
  num_puts_synthetic :: nat
  qm_strikes :: "real list"
  spot :: real

text \<open>\<^verbatim>\<open>np.diff\<close> and the maximum of a non-empty array.\<close>

definition diff :: "real list \<Rightarrow> real list" where
  "diff xs = map2 (\<lambda>a b. b - a) xs (tl xs)"

definition array_max :: "'a::linorder list \<Rightarrow> 'a" where
  "array_max xs = fold max (tl xs) (hd xs)"

definition array_min :: "'a::linorder list \<Rightarrow> 'a" where
  "array_min xs = fold min (tl xs) (hd xs)"

text \<open>
  \<^verbatim>\<open>strike_coverage\<close>: \<^verbatim>\<open>min\<close> and \<^verbatim>\<open>max\<close> of an empty array raise
  \<^verbatim>\<open>ValueError\<close>; a zero spot divides by zero.
\<close>

definition strike_coverage :: "chain_quality_metrics \<Rightarrow> exn + real" where
  "strike_coverage m =
     (if qm_strikes m = [] then Inl (ValueError ''zero-size array to reduction operation'')
      else if spot m = 0 then Inl NonFinite
      else Inr ((array_max (qm_strikes m) - array_min (qm_strikes m)) / spot m))"

definition max_strike_gap :: "chain_quality_metrics \<Rightarrow> real" where
  "max_strike_gap m =
     (if length (qm_strikes m) < 2 then 0 else array_max (diff (sort (qm_strikes m))))"

text \<open>The four sub-scores of \<^verbatim>\<open>quality_score\<close>, in the order the property computes
  them, and their weighted sum.\<close>

definition n_score :: "chain_quality_metrics \<Rightarrow> real" where
  "n_score m = min (real (num_otm m) / 30) 1"

definition cov_score :: "chain_quality_metrics \<Rightarrow> exn + real" where
  "cov_score m = (case strike_coverage m of Inl e \<Rightarrow> Inl e | Inr c \<Rightarrow> Inr (min (c / (6 / 10)) 1))"

definition gap_score :: "chain_quality_metrics \<Rightarrow> real" where
  "gap_score m = max 0 (1 - (max_strike_gap m - 5) / 45)"

definition balance_score :: "chain_quality_metrics \<Rightarrow> real" where
  "balance_score m =
     (if num_otm m > 0
      then min (real (min (num_calls m) (num_puts_synthetic m)) / (real (num_otm m) / 2)) 1
      else 0)"

definition quality_score :: "chain_quality_metrics \<Rightarrow> exn + real" where
  "quality_score m =
     (case cov_score m of
        Inl e \<Rightarrow> Inl e
      | Inr cov \<Rightarrow>
          Inr (3 / 10 * n_score m + 3 / 10 * cov + 2 / 10 * gap_score m + 2 / 10 * balance_score m))"

section \<open>Surface assembly (\<^verbatim>\<open>viz/rnd_surface_plotter.py\<close>)\<close>

text \<open>
  \<^verbatim>\<open>int(r.time_to_expiry * 365)\<close>. Python's \<^verbatim>\<open>int\<close> truncates towards zero, and the
  product is a \<^verbatim>\<open>float64\<close> product, rounded to the nearest \<^verbatim>\<open>float64\<close>: with
  \<^verbatim>\<open>time_to_expiry = 3 / 365.0\<close> it is just below 3 and the key is 2. The key depends on
  this rounding, so the rounding is the parameter \<open>fl\<close> of the surface functions (a map
  from the exact product to the \<^verbatim>\<open>float64\<close> that the multiplication returns).
\<close>

definition trunc_int :: "real \<Rightarrow> int" where
  "trunc_int t = (if 0 \<le> t then \<lfloor>t\<rfloor> else \<lceil>t\<rceil>)"

definition dte_of :: "(real \<Rightarrow> real) \<Rightarrow> rnd_result \<Rightarrow> int" where
  "dte_of fl r = trunc_int (fl (time_to_expiry r * 365))"

text \<open>
  The dictionary \<^verbatim>\<open>{int(r.time_to_expiry * 365): r for r in rnd_results}\<close>: a later
  result replaces an earlier one with the same key. \<^verbatim>\<open>sorted(rnd_by_dte.keys())\<close> lists
  each key once, in increasing order.
\<close>

definition rnd_by_dte :: "(real \<Rightarrow> real) \<Rightarrow> rnd_result list \<Rightarrow> int \<rightharpoonup> rnd_result" where
  "rnd_by_dte fl rs = map_of (rev (map (\<lambda>r. (dte_of fl r, r)) rs))"









section \<open>Option chains as data frames\<close>

text \<open>
  A pandas \<^verbatim>\<open>DataFrame\<close> of option quotes is a list of column names and a list of
  rows. A row has a cell for every column the pipeline reads or writes; the cells of a
  column that is not in \<open>columns\<close> are placeholders that no function reads, since a
  read of a missing column raises \<^verbatim>\<open>KeyError\<close> first. Timestamps are day numbers.
\<close>

record row =
  expiry :: int
  strike :: real
  right :: string
  bid :: real
  ask :: real
  volume :: int
  open_interest :: int
  mid :: real
  dte :: int
  source :: string

record frame =
  columns :: "string list"
  rows :: "row list"

text \<open>\<^verbatim>\<open>DataFrame.empty\<close>: an axis of length 0.\<close>

definition frame_empty :: "frame \<Rightarrow> bool" where
  "frame_empty f = (rows f = [] \<or> columns f = [])"

definition has_col :: "frame \<Rightarrow> string \<Rightarrow> bool" where
  "has_col f c = (c \<in> set (columns f))"

text \<open>
  Frames are objects: a store is the list of the frames allocated so far and a
  reference is an index into it. \<^verbatim>\<open>df.copy()\<close>, boolean indexing \<^verbatim>\<open>df[mask]\<close> and
  \<^verbatim>\<open>reset_index(drop=True)\<close> allocate a new frame; the assignment \<^verbatim>\<open>df[c] = values\<close>
  writes into the frame that \<open>df\<close> refers to.
\<close>

type_synonym store = "frame list"

definition alloc :: "store \<Rightarrow> frame \<Rightarrow> store \<times> nat" where
  "alloc st f = (st @ [f], length st)"

definition df_copy :: "store \<Rightarrow> nat \<Rightarrow> store \<times> nat" where
  "df_copy st a = alloc st (st ! a)"

definition df_filter :: "store \<Rightarrow> nat \<Rightarrow> (row \<Rightarrow> bool) \<Rightarrow> store \<times> nat" where
  "df_filter st a P = alloc st ((st ! a)\<lparr>rows := filter P (rows (st ! a))\<rparr>)"

definition df_set_col :: "store \<Rightarrow> nat \<Rightarrow> string \<Rightarrow> (row \<Rightarrow> row) \<Rightarrow> store" where
  "df_set_col st a c upd =
     st[a := \<lparr>columns = (if c \<in> set (columns (st ! a)) then columns (st ! a)
                          else columns (st ! a) @ [c]),
              rows = map upd (rows (st ! a))\<rparr>]"

section \<open>Chain cleaner (\<^verbatim>\<open>processing/chain_cleaner.py\<close>)\<close>

record chain_cleaner =
  min_volume :: int
  min_oi :: int
  max_spread_pct :: real
  min_dte :: int
  max_dte :: int

definition default_cleaner :: chain_cleaner where
  "default_cleaner = \<lparr>min_volume = 10, min_oi = 100, max_spread_pct = 20 / 100,
     min_dte = 1, max_dte = 365\<rparr>"

text \<open>\<^verbatim>\<open>df["mid"] = (df["bid"] + df["ask"]) / 2\<close> when the column is missing.\<close>

definition add_mid :: "store \<Rightarrow> nat \<Rightarrow> store" where
  "add_mid st df =
     (if has_col (st ! df) ''mid'' then st
      else df_set_col st df ''mid'' (\<lambda>q. q\<lparr>mid := (bid q + ask q) / 2\<rparr>))"

text \<open>
  The four filters of \<^verbatim>\<open>ChainCleaner.clean\<close> after the quote-validity filter; each
  rebinds \<open>df\<close> to a new frame. In the spread filter a zero mid is replaced by NaN, and a
  comparison with NaN is false, so the row is dropped.
\<close>

definition volume_filter :: "chain_cleaner \<Rightarrow> store \<Rightarrow> nat \<Rightarrow> store \<times> (exn + nat)" where
  "volume_filter c st df =
     (if min_volume c > 0
      then if \<not> has_col (st ! df) ''volume'' then (st, Inl (KeyError ''volume''))
           else map_prod id Inr (df_filter st df (\<lambda>q. volume q \<ge> min_volume c))
      else (st, Inr df))"

definition oi_filter :: "chain_cleaner \<Rightarrow> store \<Rightarrow> nat \<Rightarrow> store \<times> (exn + nat)" where
  "oi_filter c st df =
     (if min_oi c > 0
      then if \<not> has_col (st ! df) ''open_interest'' then (st, Inl (KeyError ''open_interest''))
           else map_prod id Inr (df_filter st df (\<lambda>q. open_interest q \<ge> min_oi c))
      else (st, Inr df))"

definition spread_filter :: "chain_cleaner \<Rightarrow> store \<Rightarrow> nat \<Rightarrow> store \<times> nat" where
  "spread_filter c st df =
     (if max_spread_pct c > 0
      then df_filter st df (\<lambda>q. mid q \<noteq> 0 \<and> (ask q - bid q) / mid q \<le> max_spread_pct c)
      else (st, df))"

definition dte_filter :: "chain_cleaner \<Rightarrow> int option \<Rightarrow> store \<Rightarrow> nat \<Rightarrow> store \<times> nat" where
  "dte_filter c trade_date st df =
     (case trade_date of
        None \<Rightarrow> (st, df)
      | Some td \<Rightarrow>
          if has_col (st ! df) ''expiry''
          then df_filter (df_set_col st df ''dte'' (\<lambda>q. q\<lparr>dte := expiry q - td\<rparr>)) df
                 (\<lambda>q. dte q \<ge> min_dte c \<and> dte q \<le> max_dte c)
          else (st, df))"

text \<open>
  \<^verbatim>\<open>ChainCleaner.clean(chain, trade_date)\<close>, on the store: the result is the store after
  the call and the returned reference, or the exception raised. An empty chain is
  returned as it is, the same object.
\<close>

definition clean :: "chain_cleaner \<Rightarrow> store \<Rightarrow> nat \<Rightarrow> int option \<Rightarrow> store \<times> (exn + nat)" where
  "clean c st chain trade_date =
     (if frame_empty (st ! chain) then (st, Inr chain)
      else let (st1, df1) = df_copy st chain
           in if \<not> has_col (st1 ! df1) ''bid'' then (st1, Inl (KeyError ''bid''))
              else if \<not> has_col (st1 ! df1) ''ask'' then (st1, Inl (KeyError ''ask''))
              else let st2 = add_mid st1 df1;
                       (st3, df3) = df_filter st2 df1 (\<lambda>q. bid q \<le> ask q \<and> bid q \<ge> 0 \<and> ask q > 0)
                   in case volume_filter c st3 df3 of
                        (st4, Inl e) \<Rightarrow> (st4, Inl e)
                      | (st4, Inr df4) \<Rightarrow>
                          (case oi_filter c st4 df4 of
                             (st5, Inl e) \<Rightarrow> (st5, Inl e)
                           | (st5, Inr df5) \<Rightarrow>
                               (let (st6, df6) = spread_filter c st5 df5;
                                    (st7, df7) = dte_filter c trade_date st6 df6
                                in map_prod id Inr (alloc st7 (st7 ! df7)))))"

text \<open>
  A row of the OTM chain, \<^verbatim>\<open>{"expiry": .., "strike": .., "mid": .., "source": ..}\<close>; the
  other cells are placeholders of columns the OTM frame does not have.
\<close>

definition otm_row :: "int \<Rightarrow> real \<Rightarrow> real \<Rightarrow> string \<Rightarrow> row" where
  "otm_row e k m s = \<lparr>expiry = e, strike = k, right = [], bid = 0, ask = 0, volume = 0,
     open_interest = 0, mid = m, dte = 0, source = s\<rparr>"

definition otm_columns :: "string list" where
  "otm_columns = [''expiry'', ''strike'', ''mid'', ''source'']"

text \<open>Put-call parity, \<^verbatim>\<open>C = P + spot - K * exp(-r * T)\<close>.\<close>

definition synthetic_call :: "real \<Rightarrow> real \<Rightarrow> real \<Rightarrow> row \<Rightarrow> real" where
  "synthetic_call sp r T q = mid q + sp - strike q * exp (- r * T)"

text \<open>
  The loop over the ATM-band calls: a call is appended only when no row of the expiry
  collected so far has its strike. The state is the list \<^verbatim>\<open>expiry_results\<close> and the
  counter \<^verbatim>\<open>num_calls\<close>.
\<close>

fun add_atm_calls :: "int \<Rightarrow> row list \<Rightarrow> row list \<times> nat \<Rightarrow> row list \<times> nat" where
  "add_atm_calls e [] acc = acc"
| "add_atm_calls e (q # qs) (res, n) =
     (if filter (\<lambda>x. strike x = strike q) res = []
      then add_atm_calls e qs (res @ [otm_row e (strike q) (mid q) ''call''], n + 1)
      else add_atm_calls e qs (res, n))"

text \<open>
  The body of the loop over the expiries of \<^verbatim>\<open>build_otm_chain\<close>, for the rows
  \<^verbatim>\<open>exp_df\<close> of one expiry (never empty): \<^verbatim>\<open>expiry_results\<close>, \<^verbatim>\<open>num_calls\<close> and
  \<^verbatim>\<open>num_puts_synthetic\<close>.
\<close>

definition expiry_results :: "real \<Rightarrow> real \<Rightarrow> int \<Rightarrow> row list \<Rightarrow> row list \<times> nat \<times> nat" where
  "expiry_results sp r e exp_df =
     (let T = real_of_int (dte (hd exp_df)) / 365;
          otm_calls = filter (\<lambda>q. right q = ''C'' \<and> strike q > sp) exp_df;
          otm_puts = filter (\<lambda>q. right q = ''P'' \<and> strike q < sp) exp_df;
          kept_puts = filter (\<lambda>q. synthetic_call sp r T q > 0) otm_puts;
          atm_calls = filter (\<lambda>q. right q = ''C'' \<and> strike q \<ge> sp * (99 / 100)
                                  \<and> strike q \<le> sp * (101 / 100)) exp_df;
          res = map (\<lambda>q. otm_row e (strike q) (mid q) ''call'') otm_calls
                @ map (\<lambda>q. otm_row e (strike q) (synthetic_call sp r T q) ''put_synthetic'')
                    kept_puts;
          (res', n_calls) = add_atm_calls e atm_calls (res, length otm_calls)
      in (res', n_calls, length kept_puts))"

text \<open>\<^verbatim>\<open>df["expiry"].unique()\<close>: the distinct values in the order of first appearance.\<close>

definition unique :: "'a list \<Rightarrow> 'a list" where
  "unique xs = rev (remdups (rev xs))"

text \<open>
  The loop over the expiries: \<^verbatim>\<open>results\<close> and the dictionary \<^verbatim>\<open>quality_metrics\<close>,
  which gets an entry for an expiry with at least one OTM row.
\<close>

fun otm_loop ::
  "real \<Rightarrow> real \<Rightarrow> row list \<Rightarrow> int list \<Rightarrow> row list \<times> (int \<rightharpoonup> chain_quality_metrics)
     \<Rightarrow> row list \<times> (int \<rightharpoonup> chain_quality_metrics)" where
  "otm_loop sp r df [] acc = acc"
| "otm_loop sp r df (e # es) (results, quality) =
     (let exp_df = filter (\<lambda>q. expiry q = e) df;
          (res, n_calls, n_puts) = expiry_results sp r e exp_df
      in otm_loop sp r df es
           (results @ res,
            if res = [] then quality
            else quality(e \<mapsto> \<lparr>num_raw = length exp_df, num_after_clean = length exp_df,
                                 num_otm = length res, num_calls = n_calls,
                                 num_puts_synthetic = n_puts, qm_strikes = map strike res,
                                 spot = sp\<rparr>)))"

text \<open>
  \<^verbatim>\<open>ChainCleaner.build_otm_chain(chain, spot, r, return_quality)\<close>, on the store. The
  model returns the frame and the quality metrics; with \<^verbatim>\<open>return_quality=False\<close> the
  source returns the frame alone. \<^verbatim>\<open>sort_values(["expiry", "strike"])\<close> is a stable
  sort on the pair.
\<close>

definition build_otm_chain ::
  "store \<Rightarrow> nat \<Rightarrow> real \<Rightarrow> real
     \<Rightarrow> store \<times> (exn + nat \<times> (int \<rightharpoonup> chain_quality_metrics))" where
  "build_otm_chain st chain sp r =
     (if frame_empty (st ! chain) then (st, Inr (chain, Map.empty))
      else let (st1, df) = df_copy st chain
           in if \<not> has_col (st1 ! df) ''mid'' \<and> \<not> has_col (st1 ! df) ''bid''
                then (st1, Inl (KeyError ''bid''))
              else if \<not> has_col (st1 ! df) ''mid'' \<and> \<not> has_col (st1 ! df) ''ask''
                then (st1, Inl (KeyError ''ask''))
              else let st2 = add_mid st1 df
                   in if \<not> has_col (st2 ! df) ''dte''
                        then (st2, Inl (ValueError
                               ''Chain must have 'dte' column. Run clean() first.''))
                      else if \<not> has_col (st2 ! df) ''expiry'' then (st2, Inl (KeyError ''expiry''))
                      else if \<not> has_col (st2 ! df) ''right'' then (st2, Inl (KeyError ''right''))
                      else if \<not> has_col (st2 ! df) ''strike'' then (st2, Inl (KeyError ''strike''))
                      else let (results, quality) =
                                 otm_loop sp r (rows (st2 ! df))
                                   (unique (map expiry (rows (st2 ! df)))) ([], Map.empty)
                           in if results = []
                              then let (st3, out) = alloc st2 \<lparr>columns = otm_columns, rows = []\<rparr>
                                   in (st3, Inr (out, Map.empty))
                              else let (st3, out) =
                                         alloc st2 \<lparr>columns = otm_columns,
                                           rows = sort_key (\<lambda>q. (expiry q, strike q)) results\<rparr>
                                   in (st3, Inr (out, quality)))"

section \<open>Call-price smoother (\<^verbatim>\<open>processing/smoothing.py\<close>)\<close>

record call_price_smoother =
  smoothing_factor :: "real option"
  min_points :: nat


text \<open>The decimal rendering of a natural number in an f-string.\<close>

function show_nat :: "nat \<Rightarrow> string" where
  "show_nat n =
     (if n < 10 then [char_of (48 + n)]
      else show_nat (n div 10) @ [char_of (48 + n mod 10)])"
  by pat_completeness auto
termination
  by (relation "measure id") auto

declare show_nat.simps [simp del]

text \<open>\<^verbatim>\<open>np.clip(x, lo, hi)\<close> and \<^verbatim>\<open>np.var\<close> of a non-empty array.\<close>

definition clip :: "real \<Rightarrow> real \<Rightarrow> real \<Rightarrow> real" where
  "clip x lo hi = min (max x lo) hi"

definition var :: "real list \<Rightarrow> real" where
  "var xs = (let m = sum_list xs / real (length xs)
             in sum_list (map (\<lambda>x. (x - m) ^ 2) xs) / real (length xs))"

text \<open>
  The closure \<^verbatim>\<open>smooth_fn\<close> that \<^verbatim>\<open>fit\<close> returns, at one strike: the spline at the
  log-strike clipped to the fitted range, floored at zero.
\<close>

definition smooth_closure :: "spline_handle \<Rightarrow> real \<Rightarrow> real \<Rightarrow> real \<Rightarrow> real" where
  "smooth_closure sp log_k_min log_k_max K =
     max (sp_eval sp (clip (ln (max K (1 / 10 ^ 10))) log_k_min log_k_max)) 0"

text \<open>
  \<^verbatim>\<open>CallPriceSmoother.fit(chain, spot_price, price_col="mid")\<close>, with the price column
  of the pipeline. The constructor of SciPy's spline is the parameter \<open>mk_spline\<close>
  (log-strikes, prices, smoothing parameter), which returns a handle or raises. The
  frame is only read. Duplicate strikes are averaged over \<^verbatim>\<open>np.unique\<close>, the sorted
  distinct strikes. With no valid strike left (possible only when \<open>min_points\<close> is 0)
  the source fails in \<^verbatim>\<open>strikes[0]\<close>, in the constructor or in the minimum of an empty
  array; the model reports \<open>IndexError\<close> for all three.
\<close>

definition fit ::
  "(real list \<Rightarrow> real list \<Rightarrow> real \<Rightarrow> exn + spline_handle) \<Rightarrow> call_price_smoother \<Rightarrow> frame
     \<Rightarrow> real option \<Rightarrow> exn + smoothing_result" where
  "fit mk_spline sm chain spot_opt =
     (let calls0 = (if has_col chain ''right'' then filter (\<lambda>q. right q = ''C'') (rows chain)
                    else rows chain)
      in if \<not> has_col chain ''mid'' \<and> \<not> has_col chain ''bid'' then Inl (KeyError ''bid'')
         else if \<not> has_col chain ''mid'' \<and> \<not> has_col chain ''ask'' then Inl (KeyError ''ask'')
         else let calls = (if has_col chain ''mid'' then calls0
                           else map (\<lambda>q. q\<lparr>mid := (bid q + ask q) / 2\<rparr>) calls0)
              in if length calls < min_points sm
                 then Inl (ValueError (''Need at least '' @ show_nat (min_points sm)
                             @ '' calls, got '' @ show_nat (length calls)))
                 else if \<not> has_col chain ''strike'' then Inl (KeyError ''strike'')
                 else let sorted_calls = sort_key strike calls;
                          valid = filter (\<lambda>q. mid q > 0 \<and> strike q > 0) sorted_calls;
                          ks = sort (remdups (map strike valid));
                          ps = map (\<lambda>k. sum_list (map mid (filter (\<lambda>q. strike q = k) valid))
                                        / real (length (filter (\<lambda>q. strike q = k) valid))) ks
                      in if length ks < min_points sm
                         then Inl (ValueError (''Not enough valid prices after cleaning: ''
                                     @ show_nat (length ks)))
                         else if ks = [] then Inl IndexError
                         else let sp = (case spot_opt of None \<Rightarrow> ks ! (length ks div 2)
                                        | Some s \<Rightarrow> s);
                                  log_strikes = map ln ks;
                                  s = (case smoothing_factor sm of
                                         Some f \<Rightarrow> f * real (length ks)
                                       | None \<Rightarrow> real (length ks) * var ps * (1 / 100))
                              in case mk_spline log_strikes ps s of
                                   Inl e \<Rightarrow> Inl e
                                 | Inr spl \<Rightarrow>
                                     post_init
                                       \<lparr>sr_strikes = ks, prices = ps,
                                        smooth_fn = smooth_closure spl (array_min log_strikes)
                                                      (array_max log_strikes),
                                        spot_price = sp, strike_min = array_min ks,
                                        strike_max = array_max ks, spline = Some spl\<rparr>)"

section \<open>Arbitrage checks (\<^verbatim>\<open>processing/arbitrage_checks.py\<close>)\<close>





section \<open>RND pipeline (\<^verbatim>\<open>pipelines/build_rnd_pipeline.py\<close>)\<close>



record pipeline_result =
  symbol :: string
  trade_date :: int
  rnd_results :: "rnd_result list"
  smoothing_results :: "int \<rightharpoonup> smoothing_result"
  num_expiries :: nat
  success :: bool
  errors :: "string list"


text \<open>
  The external collaborators of a pipeline: the data client, the file store, SciPy's
  spline constructor and the rendering of a date. Each may raise.
\<close>

record environment =
  get_option_chain :: "string \<Rightarrow> int \<Rightarrow> exn + frame"
  get_spot_price :: "string \<Rightarrow> int \<Rightarrow> exn + real option"
  save_chain :: "frame \<Rightarrow> string \<Rightarrow> int \<Rightarrow> exn + unit"
  mk_spline :: "real list \<Rightarrow> real list \<Rightarrow> real \<Rightarrow> exn + spline_handle"
  show_date :: "int \<Rightarrow> string"














section \<open>Concrete inputs\<close>

definition rnd3 :: rnd_result where
  "rnd3 = \<lparr>strikes = [1, 2, 3], density = [1/4, 1/2, 1/4], rnd_expiry = 30,
            time_to_expiry = 30 / 365, rnd_spot_price = 2, mean = 2, std = 1/2,
            skewness = 0, kurtosis = 0, data_quality = None\<rparr>"



definition ex2 :: rnd_extractor where "ex2 = \<lparr>ex_r = 5/100, num_points = 2\<rparr>"


definition sp_const :: spline_handle where
  "sp_const = \<lparr>sp_eval = (\<lambda>u. 1), sp_derivative = (\<lambda>n. Inr (\<lambda>u. if n = 1 then - 1 else 1))\<rparr>"

definition sr_spline :: smoothing_result where
  "sr_spline = \<lparr>sr_strikes = [1, 2, 4], prices = [3, 2, 1], smooth_fn = (\<lambda>K. 1),
     spot_price = 2, strike_min = 1, strike_max = 4, spline = Some sp_const\<rparr>"

definition ex0 :: rnd_extractor where "ex0 = \<lparr>ex_r = 0, num_points = 3\<rparr>"


text \<open>The metrics of an expiry with a single out-of-the-money call at strike 105, spot 100.\<close>

definition qm_single :: chain_quality_metrics where
  "qm_single = \<lparr>num_raw = 1, num_after_clean = 1, num_otm = 1, num_calls = 1,
     num_puts_synthetic = 0, qm_strikes = [105], spot = 100\<rparr>"

text \<open>The metrics of an expiry with 15 puts at 7.0, 7.2, \<dots>, 9.8 and 15 calls at
  10.2, 10.4, \<dots>, 13.0 around the spot 10.\<close>

definition qm_dense :: chain_quality_metrics where
  "qm_dense = \<lparr>num_raw = 30, num_after_clean = 30, num_otm = 30, num_calls = 15,
     num_puts_synthetic = 15,
     qm_strikes = map (\<lambda>i. real i / 5) ([51..<66] @ [35..<50]), spot = 10\<rparr>"




text \<open>A quoted put and a quoted call at the strike 99.5 of the expiry on day 30.\<close>

definition chain_raw :: frame where
  "chain_raw = \<lparr>columns = [''expiry'', ''strike'', ''right'', ''bid'', ''ask'', ''volume'',
       ''open_interest''],
     rows = [\<lparr>expiry = 30, strike = 199 / 2, right = ''P'', bid = 19 / 10, ask = 21 / 10,
              volume = 50, open_interest = 500, mid = 0, dte = 0, source = []\<rparr>,
             \<lparr>expiry = 30, strike = 199 / 2, right = ''C'', bid = 29 / 10, ask = 31 / 10,
              volume = 50, open_interest = 500, mid = 0, dte = 0, source = []\<rparr>]\<rparr>"

text \<open>The same two quotes in a cleaned chain, with the columns \<open>mid\<close> and \<open>dte\<close>.\<close>

definition chain_atm :: frame where
  "chain_atm = \<lparr>columns = [''expiry'', ''strike'', ''right'', ''bid'', ''ask'', ''volume'',
       ''open_interest'', ''mid'', ''dte''],
     rows = [\<lparr>expiry = 30, strike = 199 / 2, right = ''P'', bid = 19 / 10, ask = 21 / 10,
              volume = 50, open_interest = 500, mid = 2, dte = 30, source = []\<rparr>,
             \<lparr>expiry = 30, strike = 199 / 2, right = ''C'', bid = 29 / 10, ask = 31 / 10,
              volume = 50, open_interest = 500, mid = 3, dte = 30, source = []\<rparr>]\<rparr>"

text \<open>A spline handle that is the identity in log-strike, an OTM frame of four strikes
  and a smoother that accepts four points.\<close>

definition sp_id :: spline_handle where
  "sp_id = \<lparr>sp_eval = (\<lambda>u. u), sp_derivative = (\<lambda>n. Inr (\<lambda>u. if n = 1 then 1 else 0))\<rparr>"

definition otm_four :: frame where
  "otm_four = \<lparr>columns = otm_columns,
     rows = [otm_row 30 90 12 ''put_synthetic'', otm_row 30 95 8 ''put_synthetic'',
             otm_row 30 105 3 ''call'', otm_row 30 110 1 ''call'']\<rparr>"

definition smoother4 :: call_price_smoother where
  "smoother4 = \<lparr>smoothing_factor = None, min_points = 4\<rparr>"



section \<open>Verified properties\<close>

subsection \<open>Tail probabilities\<close>

text \<open>
  C10. For every RND result and every strike \<open>K\<close> strictly below all grid strikes,
  \<open>probability_below\<close> returns exactly 0 without raising (the empty-mask branch), and
  \<open>probability_above\<close> returns exactly 1. For every other \<open>K\<close>, with \<open>s_top\<close> the
  largest grid strike that is at most \<open>K\<close>, \<open>probability_below K\<close> is the same as
  \<open>probability_below s_top\<close>: the integration stops at that grid strike.
\<close>

theorem probability_below_outside_grid:
  "((\<forall>s\<in>set (strikes r). K < s) \<longrightarrow>
      probability_below r K = Inr 0 \<and> probability_above r K = Inr 1) \<and>
   (s_top \<in> set (strikes r) \<and> s_top \<le> K \<and> (\<forall>s\<in>set (strikes r). s \<le> K \<longrightarrow> s \<le> s_top) \<longrightarrow>
      probability_below r K = probability_below r s_top)"
proof (intro conjI impI)
  assume below: "\<forall>s\<in>set (strikes r). K < s"
  then have "\<not> list_ex id (map (\<lambda>s. s \<le> K) (strikes r))"
    by (auto simp: list_ex_iff)
  then show pb: "probability_below r K = Inr 0"
    by (simp add: probability_below_def)
  show "probability_above r K = Inr 1"
    by (simp add: probability_above_def pb)
next
  assume top: "s_top \<in> set (strikes r) \<and> s_top \<le> K \<and>
    (\<forall>s\<in>set (strikes r). s \<le> K \<longrightarrow> s \<le> s_top)"
  have eq: "map (\<lambda>s. s \<le> K) (strikes r) = map (\<lambda>s. s \<le> s_top) (strikes r)"
    using top by (intro map_cong) auto
  show "probability_below r K = probability_below r s_top"
    unfolding probability_below_def eq ..
qed

theorem probability_below_outside_grid_witness:
  "list_all (\<lambda>s. 1/2 < s) (strikes rnd3) \<and>
   probability_below rnd3 (1/2) = Inr 0 \<and> probability_above rnd3 (1/2) = Inr 1 \<and>
   2 \<in> set (strikes rnd3) \<and> (2::real) \<le> 5/2 \<and>
   list_all (\<lambda>s. s \<le> 5/2 \<longrightarrow> s \<le> 2) (strikes rnd3) \<and>
   probability_below rnd3 (5/2) = probability_below rnd3 2 \<and>
   probability_below rnd3 (5/2) = Inr (3/8)"
proof -
  have a: "list_all (\<lambda>s. 1/2 < s) (strikes rnd3)"
    by (simp add: rnd3_def)
  have b: "2 \<in> set (strikes rnd3) \<and> (2::real) \<le> 5/2 \<and>
      list_all (\<lambda>s. s \<le> 5/2 \<longrightarrow> s \<le> 2) (strikes rnd3)"
    by (simp add: rnd3_def)
  have c: "probability_below rnd3 (5/2) = Inr (3/8)"
    by (simp add: probability_below_def select_def rnd3_def)
  from probability_below_outside_grid [of rnd3 "1/2" 2] a
  have d: "probability_below rnd3 (1/2) = Inr 0 \<and> probability_above rnd3 (1/2) = Inr 1"
    by (simp add: list_all_iff)
  from probability_below_outside_grid [of rnd3 "5/2" 2] b
  have e: "probability_below rnd3 (5/2) = probability_below rnd3 2"
    by (simp add: list_all_iff)
  show ?thesis using a b c d e by blast
qed

subsection \<open>Trapezoidal rule, grids and normalisation\<close>




lemma hd_linspace: "0 < n \<Longrightarrow> hd (linspace a b n) = a"
  by (simp add: linspace_def hd_map upt_conv_Cons)

lemma last_linspace: "0 < n \<Longrightarrow> last (linspace a b n) = (if n = 1 then a else b)"
  by (cases n) (auto simp: linspace_def last_map)





lemma finite_diff_2nd_total:
  "3 \<le> length ks \<Longrightarrow> ks ! 1 - ks ! 0 \<noteq> 0 \<Longrightarrow> \<exists>d. finite_diff_2nd C ks = Inr d"
  by (simp add: finite_diff_2nd_def Let_def)

lemma second_derivative_total:
  assumes "3 \<le> length ks" and "ks ! 1 - ks ! 0 \<noteq> 0" and "\<not> list_ex (\<lambda>K. K \<le> 0) ks"
  shows "\<exists>d. second_derivative C ks so = Inr d"
proof -
  from finite_diff_2nd_total [OF assms(1,2)] obtain d where fd: "finite_diff_2nd C ks = Inr d"
    by blast
  show ?thesis
    using fd assms(3)
    by (auto simp: second_derivative_def spline_path_def split: option.splits sum.splits)
qed



lemma linspace_nth: "i < n \<Longrightarrow> linspace a b n ! i = a + real i * ((b - a) / real (n - 1))"
  by (simp add: linspace_def)







subsection \<open>The extracted density is a probability density\<close>






text \<open>
  With equal bounds the grid has width 0: the integral is not positive and the fallback
  divides by \<open>x[-1] - x[0] = 0\<close>. The source raises nothing there and returns a density
  of \<^verbatim>\<open>inf\<close>, which is outside the real numbers.
\<close>

lemma extract_equal_bounds_not_finite:
  "extract_rnd (\<lambda>d. []) ex2 (sr_spline\<lparr>strike_max := 1\<rparr>) 31 1 = Inl NonFinite"
  by (simp add: extract_rnd_def compute_density_def second_derivative_def spline_path_def
      normalize_density_def get_strike_grid_def linspace_def sr_spline_def sp_const_def ex2_def
      upt_rec default_min_value_def Let_def)

subsection \<open>Breeden-Litzenberger density before normalisation\<close>

lemma finite_diff_2nd_nth:
  assumes "3 \<le> length ks" and "ks ! 1 - ks ! 0 \<noteq> 0"
  shows "\<exists>fd. finite_diff_2nd C ks = Inr fd \<and> length fd = length ks \<and>
     (\<forall>i. 1 \<le> i \<and> i + 1 < length ks \<longrightarrow>
        fd ! i = (C (ks ! (i + 1)) - 2 * C (ks ! i) + C (ks ! (i - 1))) / (ks ! 1 - ks ! 0) ^ 2) \<and>
     fd ! 0 = fd ! 1 \<and> fd ! (length ks - 1) = fd ! (length ks - 2)"
proof -
  let ?n = "length ks"
  let ?dK = "ks ! 1 - ks ! 0"
  let ?ps = "map C ks"
  let ?fd = "stencil ?ps ?dK 1 # map (stencil ?ps ?dK) [1..<?n - 1] @ [stencil ?ps ?dK (?n - 2)]"
  have eq: "finite_diff_2nd C ks = Inr ?fd"
    using assms by (simp add: finite_diff_2nd_def Let_def)
  have len: "length ?fd = ?n" using assms by simp
  have interior: "?fd ! i = stencil ?ps ?dK i" if "1 \<le> i" "i + 1 < ?n" for i
  proof -
    from that obtain j where j: "i = Suc j" by (cases i) auto
    have "j < length (map (stencil ?ps ?dK) [1..<?n - 1])" using that j by simp
    then have "(map (stencil ?ps ?dK) [1..<?n - 1] @ [stencil ?ps ?dK (?n - 2)]) ! j
        = map (stencil ?ps ?dK) [1..<?n - 1] ! j"
      by (simp only: nth_append if_True)
    also have "\<dots> = stencil ?ps ?dK (1 + j)"
      using that j by (simp del: upt_Suc)
    finally show ?thesis using j by simp
  qed
  have st: "stencil ?ps ?dK i = (C (ks ! (i + 1)) - 2 * C (ks ! i) + C (ks ! (i - 1))) / ?dK ^ 2"
    if "1 \<le> i" "i + 1 < ?n" for i
    using that by (simp add: stencil_def)
  have first: "?fd ! 0 = ?fd ! 1"
    using interior [of 1] assms by simp
  have last: "?fd ! (?n - 1) = ?fd ! (?n - 2)"
  proof -
    have "?fd ! (?n - 1) = stencil ?ps ?dK (?n - 2)"
      using assms by (simp add: nth_Cons' nth_append)
    moreover have "?fd ! (?n - 2) = stencil ?ps ?dK (?n - 2)"
      using interior [of "?n - 2"] assms by auto
    ultimately show ?thesis by simp
  qed
  show ?thesis
    using eq len interior st first last by (intro exI [of _ ?fd]) (simp del: nth_Cons_Suc)
qed

text \<open>
  C2. When the smoothing result retains a spline handle whose two derivatives are
  available, the second derivative that \<open>compute_density\<close> forms at each positive grid
  strike \<open>K\<close> is \<open>(C''(log K) - C'(log K)) / K\<^sup>2\<close>, and the density handed to
  \<open>normalize_density\<close> is that of the specification, \<open>e\<^sup>r\<^sup>T\<close> times it. When there
  is no smoothing result or no spline handle, or a derivative of the spline raises, the
  central second difference of \<open>C\<close> with the step \<open>ks[1] - ks[0]\<close> is used at interior
  cells, the two edge cells copy their interior neighbour, and the result scaled by
  \<open>e\<^sup>r\<^sup>T\<close> is handed to \<open>normalize_density\<close>.
\<close>

theorem compute_density_breeden_litzenberger:
  "(spline s = Some sp \<and> sp_derivative sp 1 = Inr d1 \<and> sp_derivative sp 2 = Inr d2 \<and>
      list_all (\<lambda>K. 0 < K) ks \<longrightarrow>
      second_derivative C ks (Some s) = Inr (map (\<lambda>K. (d2 (ln K) - d1 (ln K)) / K ^ 2) ks) \<and>
      compute_density ex C ks T (Some s) =
        normalize_density (bl_density_spec (ex_r ex) T d1 d2 ks) ks default_min_value) \<and>
   ((so = None \<or> (\<exists>s'. so = Some s' \<and> (spline s' = None \<or>
        (\<exists>sp' e. spline s' = Some sp' \<and> (sp_derivative sp' 1 = Inl e \<or> sp_derivative sp' 2 = Inl e))))) \<and>
      3 \<le> length ks \<and> ks ! 1 - ks ! 0 \<noteq> 0 \<longrightarrow>
      (\<exists>fd. second_derivative C ks so = Inr fd \<and> length fd = length ks \<and>
         (\<forall>i. 1 \<le> i \<and> i + 1 < length ks \<longrightarrow>
            fd ! i = (C (ks ! (i + 1)) - 2 * C (ks ! i) + C (ks ! (i - 1))) / (ks ! 1 - ks ! 0) ^ 2) \<and>
         fd ! 0 = fd ! 1 \<and> fd ! (length ks - 1) = fd ! (length ks - 2) \<and>
         compute_density ex C ks T so =
           normalize_density (map (\<lambda>d. exp (ex_r ex * T) * d) fd) ks default_min_value))"
proof (rule conjI; rule impI)
  assume a: "spline s = Some sp \<and> sp_derivative sp 1 = Inr d1 \<and> sp_derivative sp 2 = Inr d2 \<and>
      list_all (\<lambda>K. 0 < K) ks"
  then have "\<not> list_ex (\<lambda>K. K \<le> 0) ks"
    by (auto simp: list_ex_iff list_all_iff)
  with a have sd: "second_derivative C ks (Some s) = Inr (map (\<lambda>K. (d2 (ln K) - d1 (ln K)) / K ^ 2) ks)"
    by (simp add: second_derivative_def spline_path_def)
  show "second_derivative C ks (Some s) = Inr (map (\<lambda>K. (d2 (ln K) - d1 (ln K)) / K ^ 2) ks) \<and>
      compute_density ex C ks T (Some s) =
        normalize_density (bl_density_spec (ex_r ex) T d1 d2 ks) ks default_min_value"
    by (simp add: sd compute_density_def bl_density_spec_def comp_def)
next
  assume b: "(so = None \<or> (\<exists>s'. so = Some s' \<and> (spline s' = None \<or>
        (\<exists>sp' e. spline s' = Some sp' \<and> (sp_derivative sp' 1 = Inl e \<or> sp_derivative sp' 2 = Inl e))))) \<and>
      3 \<le> length ks \<and> ks ! 1 - ks ! 0 \<noteq> 0"
  then have fall: "second_derivative C ks so = finite_diff_2nd C ks"
    by (auto simp: second_derivative_def spline_path_def split: sum.splits)
  from b finite_diff_2nd_nth [of ks C] obtain fd where fd: "finite_diff_2nd C ks = Inr fd"
    and props: "length fd = length ks"
      "\<forall>i. 1 \<le> i \<and> i + 1 < length ks \<longrightarrow>
        fd ! i = (C (ks ! (i + 1)) - 2 * C (ks ! i) + C (ks ! (i - 1))) / (ks ! 1 - ks ! 0) ^ 2"
      "fd ! 0 = fd ! 1" "fd ! (length ks - 1) = fd ! (length ks - 2)"
    by blast
  have "compute_density ex C ks T so =
      normalize_density (map (\<lambda>d. exp (ex_r ex * T) * d) fd) ks default_min_value"
    by (simp add: compute_density_def fall fd)
  with fall fd props show "\<exists>fd. second_derivative C ks so = Inr fd \<and> length fd = length ks \<and>
         (\<forall>i. 1 \<le> i \<and> i + 1 < length ks \<longrightarrow>
            fd ! i = (C (ks ! (i + 1)) - 2 * C (ks ! i) + C (ks ! (i - 1))) / (ks ! 1 - ks ! 0) ^ 2) \<and>
         fd ! 0 = fd ! 1 \<and> fd ! (length ks - 1) = fd ! (length ks - 2) \<and>
         compute_density ex C ks T so =
           normalize_density (map (\<lambda>d. exp (ex_r ex * T) * d) fd) ks default_min_value"
    by (intro exI [of _ fd]) simp
qed

theorem compute_density_breeden_litzenberger_witness:
  "spline sr_spline = Some sp_const \<and> list_all (\<lambda>K. 0 < K) [1, 2, 4 :: real] \<and>
   second_derivative (smooth_fn sr_spline) [1, 2, 4] (Some sr_spline) = Inr [2, 1/2, 1/8] \<and>
   compute_density ex0 (smooth_fn sr_spline) [1, 2, 4] (30 / 365) (Some sr_spline) =
     normalize_density [2, 1/2, 1/8] [1, 2, 4] default_min_value \<and>
   3 \<le> length [1, 2, 3 :: real] \<and>
   (\<exists>fd. second_derivative (\<lambda>K. K ^ 2) [1, 2, 3] None = Inr fd \<and> fd ! 1 = 2 \<and> fd ! 0 = fd ! 1 \<and>
      fd ! 2 = fd ! 1 \<and>
      compute_density ex0 (\<lambda>K. K ^ 2) [1, 2, 3] (30 / 365) None =
        normalize_density fd [1, 2, 3] default_min_value)"
proof -
  have h1: "spline sr_spline = Some sp_const \<and> sp_derivative sp_const 1 = Inr (\<lambda>u. - 1) \<and>
      sp_derivative sp_const 2 = Inr (\<lambda>u. 1) \<and> list_all (\<lambda>K. 0 < K) [1, 2, 4 :: real]"
    by (simp add: sr_spline_def sp_const_def)
  from compute_density_breeden_litzenberger
    [of sr_spline sp_const "\<lambda>u. - 1" "\<lambda>u. 1" "[1, 2, 4]" "smooth_fn sr_spline" ex0 "30 / 365" None] h1
  have c1: "second_derivative (smooth_fn sr_spline) [1, 2, 4] (Some sr_spline) = Inr [2, 1/2, 1/8] \<and>
     compute_density ex0 (smooth_fn sr_spline) [1, 2, 4] (30 / 365) (Some sr_spline) =
       normalize_density [2, 1/2, 1/8] [1, 2, 4] default_min_value"
    by (simp add: bl_density_spec_def ex0_def)
  have h2: "3 \<le> length [1, 2, 3 :: real] \<and> [1, 2, 3 :: real] ! 1 - [1, 2, 3] ! 0 \<noteq> 0"
    by simp
  from compute_density_breeden_litzenberger
    [of sr_spline sp_const "\<lambda>u. - 1" "\<lambda>u. 1" "[1, 2, 3]" "\<lambda>K. K ^ 2" ex0 "30 / 365" None] h2
  obtain fd where fd: "second_derivative (\<lambda>K. K ^ 2) [1, 2, 3] None = Inr fd"
    "\<forall>i. 1 \<le> i \<and> i + 1 < length [1, 2, 3 :: real] \<longrightarrow>
        fd ! i = (([1, 2, 3] ! (i + 1)) ^ 2 - 2 * ([1, 2, 3] ! i) ^ 2 + ([1, 2, 3] ! (i - 1)) ^ 2)
          / ([1, 2, 3 :: real] ! 1 - [1, 2, 3] ! 0) ^ 2"
    "fd ! 0 = fd ! 1" "fd ! (length [1, 2, 3 :: real] - 1) = fd ! (length [1, 2, 3 :: real] - 2)"
    "compute_density ex0 (\<lambda>K. K ^ 2) [1, 2, 3] (30 / 365) None =
       normalize_density (map (\<lambda>d. exp (ex_r ex0 * (30 / 365)) * d) fd) [1, 2, 3] default_min_value"
    by blast
  from fd(2) [rule_format, of 1] have "fd ! 1 = 2" by simp
  moreover from fd(4) have "fd ! 2 = fd ! 1" by (simp add: numeral_2_eq_2)
  moreover from fd(5) have "compute_density ex0 (\<lambda>K. K ^ 2) [1, 2, 3] (30 / 365) None =
        normalize_density fd [1, 2, 3] default_min_value"
    by (simp add: ex0_def)
  ultimately show ?thesis using h1 c1 fd(1,3) by auto
qed

subsection \<open>Quantile inversion\<close>



















subsection \<open>Quality score\<close>

lemma upt_51_66: "[51..<66] = [51,52,53,54,55,56,57,58,59,60,61,62,63,64,65]"
  by (simp add: upt_rec)

lemma upt_35_50: "[35..<50] = [35,36,37,38,39,40,41,42,43,44,45,46,47,48,49]"
  by (simp add: upt_rec)

lemma max_strike_gap_dense: "max_strike_gap qm_dense = 2/5"
  by (simp add: max_strike_gap_def qm_dense_def upt_51_66 upt_35_50 diff_def array_max_def)

lemma qm_strikes_dense: "qm_strikes qm_dense = [51/5, 52/5, 53/5, 54/5, 11, 56/5, 57/5, 58/5, 59/5, 12, 61/5, 62/5, 63/5, 64/5, 13,
   7, 36/5, 37/5, 38/5, 39/5, 8, 41/5, 42/5, 43/5, 44/5, 9, 46/5, 47/5, 48/5, 49/5]"
  by (simp add: qm_dense_def upt_51_66 upt_35_50)

lemma cov_dense: "cov_score qm_dense = Inr 1"
  by (simp add: cov_score_def strike_coverage_def qm_strikes_dense array_max_def array_min_def)
    (simp add: qm_dense_def)

lemma sub_scores_in_range:
  "0 \<le> n_score m \<and> n_score m \<le> 1 \<and> 0 \<le> balance_score m \<and> balance_score m \<le> 1 \<and>
   0 \<le> gap_score m"
  by (simp add: n_score_def balance_score_def gap_score_def)

text \<open>
  C4. The claim that each sub-score and the combined quality score lie in \<open>[0,1]\<close> is
  what the source documents (a score \<^verbatim>\<open>(0-1)\<close>; gap penalty \<^verbatim>\<open>1 if gap < 5\<close>), but
  \<open>gap_score\<close> has no upper clamp: on an expiry with a single strike the maximal gap is
  0 and the gap score is \<open>10/9\<close>; on a balanced chain of 30 strikes spaced 0.2 that covers
  60 percent of the spot the combined score is \<open>1148/1125 > 1\<close>.
\<close>

theorem gap_score_exceeds_one:
  "gap_score qm_single = 10 / 9 \<and> \<not> gap_score qm_single \<le> 1 \<and>
   quality_score qm_dense = Inr (1148 / 1125) \<and> \<not> (1148 / 1125 :: real) \<le> 1"
proof -
  have a: "gap_score qm_single = 10 / 9"
    by (simp add: gap_score_def max_strike_gap_def qm_single_def)
  have n: "n_score qm_dense = 1"
    by (simp add: n_score_def qm_dense_def)
  have b: "balance_score qm_dense = 1"
    by (simp add: balance_score_def qm_dense_def)
  have g: "gap_score qm_dense = 1 + 23 / 225"
    by (simp add: gap_score_def max_strike_gap_dense)
  have q: "quality_score qm_dense = Inr (1148 / 1125)"
    by (simp add: quality_score_def cov_dense n b g)
  show ?thesis using a q by simp
qed

subsection \<open>Interpolation of the surface in days to expiry\<close>

lemma array_max_eq_Max: "xs \<noteq> [] \<Longrightarrow> array_max xs = Max (set xs)"
  by (cases xs) (simp_all add: array_max_def Max.set_eq_fold [symmetric])

lemma array_min_eq_Min: "xs \<noteq> [] \<Longrightarrow> array_min xs = Min (set xs)"
  by (cases xs) (simp_all add: array_min_def Min.set_eq_fold [symmetric])







lemma rnd_by_dte_Some: "rnd_by_dte fl rs k = Some r \<Longrightarrow> r \<in> set rs \<and> dte_of fl r = k"
  by (auto simp: rnd_by_dte_def dest!: map_of_SomeD)

lemma rnd_by_dte_defined: "k \<in> dte_of fl ` set rs \<Longrightarrow> \<exists>r. rnd_by_dte fl rs k = Some r"
proof -
  assume "k \<in> dte_of fl ` set rs"
  then have "k \<in> fst ` set (rev (map (\<lambda>r. (dte_of fl r, r)) rs))"
    by (auto simp: image_iff)
  then have "rnd_by_dte fl rs k \<noteq> None"
    unfolding rnd_by_dte_def by (simp only: map_of_eq_None_iff not_not)
  then show ?thesis by auto
qed













subsection \<open>The cleaner works on copies\<close>

lemma df_filter_frame:
  assumes "n \<le> length st" and "df_filter st a P = (st', b)"
  shows "take n st' = take n st \<and> n \<le> b \<and> b < length st' \<and> length st \<le> length st' \<and>
     columns (st' ! b) = columns (st ! a)"
  using assms by (auto simp: df_filter_def alloc_def)

lemma df_set_col_frame:
  assumes "n \<le> a"
  shows "take n (df_set_col st a c u) = take n st \<and> length (df_set_col st a c u) = length st"
  using assms by (simp add: df_set_col_def)

lemma add_mid_frame:
  assumes "n \<le> a"
  shows "take n (add_mid st a) = take n st \<and> length (add_mid st a) = length st"
  using df_set_col_frame [OF assms] by (simp add: add_mid_def)

lemma add_mid_has_mid: "a < length st \<Longrightarrow> has_col (add_mid st a ! a) ''mid''"
  by (simp add: add_mid_def df_set_col_def has_col_def)

lemma volume_filter_frame:
  assumes "n \<le> length st" and "n \<le> a" and "a < length st"
    and "volume_filter c st a = (st', res)"
  shows "take n st' = take n st \<and> length st \<le> length st' \<and>
     (\<forall>b. res = Inr b \<longrightarrow> n \<le> b \<and> b < length st' \<and> columns (st' ! b) = columns (st ! a))"
proof (cases "min_volume c > 0 \<and> has_col (st ! a) ''volume''")
  case True
  obtain s b where "df_filter st a (\<lambda>q. volume q \<ge> min_volume c) = (s, b)"
    by fastforce
  with True assms(4) have f: "df_filter st a (\<lambda>q. volume q \<ge> min_volume c) = (st', b)"
    and r: "res = Inr b"
    by (simp_all add: volume_filter_def)
  from df_filter_frame [OF assms(1) f] r show ?thesis by simp
next
  case False
  then have "st' = st" using assms(4) by (auto simp: volume_filter_def split: if_splits)
  moreover have "res = Inr b \<Longrightarrow> b = a" for b
    using False assms(4) by (auto simp: volume_filter_def split: if_splits)
  ultimately show ?thesis using assms by auto
qed

lemma oi_filter_frame:
  assumes "n \<le> length st" and "n \<le> a" and "a < length st"
    and "oi_filter c st a = (st', res)"
  shows "take n st' = take n st \<and> length st \<le> length st' \<and>
     (\<forall>b. res = Inr b \<longrightarrow> n \<le> b \<and> b < length st' \<and> columns (st' ! b) = columns (st ! a))"
proof (cases "min_oi c > 0 \<and> has_col (st ! a) ''open_interest''")
  case True
  obtain s b where "df_filter st a (\<lambda>q. open_interest q \<ge> min_oi c) = (s, b)"
    by fastforce
  with True assms(4) have f: "df_filter st a (\<lambda>q. open_interest q \<ge> min_oi c) = (st', b)"
    and r: "res = Inr b"
    by (simp_all add: oi_filter_def)
  from df_filter_frame [OF assms(1) f] r show ?thesis by simp
next
  case False
  then have "st' = st" using assms(4) by (auto simp: oi_filter_def split: if_splits)
  moreover have "res = Inr b \<Longrightarrow> b = a" for b
    using False assms(4) by (auto simp: oi_filter_def split: if_splits)
  ultimately show ?thesis using assms by auto
qed

lemma spread_filter_frame:
  assumes "n \<le> length st" and "n \<le> a" and "a < length st"
    and "spread_filter c st a = (st', b)"
  shows "take n st' = take n st \<and> length st \<le> length st' \<and> n \<le> b \<and> b < length st' \<and>
     columns (st' ! b) = columns (st ! a)"
proof (cases "max_spread_pct c > 0")
  case True
  then have f: "df_filter st a (\<lambda>q. mid q \<noteq> 0 \<and> (ask q - bid q) / mid q \<le> max_spread_pct c) = (st', b)"
    using assms(4) by (simp add: spread_filter_def)
  from df_filter_frame [OF assms(1) f] show ?thesis by simp
next
  case False
  then show ?thesis using assms by (simp add: spread_filter_def)
qed

lemma dte_filter_frame:
  assumes "n \<le> length st" and "n \<le> a" and "a < length st"
    and "dte_filter c td st a = (st', b)"
  shows "take n st' = take n st \<and> length st \<le> length st' \<and> n \<le> b \<and> b < length st' \<and>
     (has_col (st ! a) ''mid'' \<longrightarrow> has_col (st' ! b) ''mid'') \<and>
     (td \<noteq> None \<and> has_col (st ! a) ''expiry'' \<longrightarrow> has_col (st' ! b) ''dte'')"
proof (cases "td \<noteq> None \<and> has_col (st ! a) ''expiry''")
  case False
  then have "st' = st \<and> b = a"
    using assms(4) by (auto simp: dte_filter_def split: option.splits if_splits)
  then show ?thesis using assms False by auto
next
  case True
  then obtain t where t: "td = Some t" by auto
  let ?st1 = "df_set_col st a ''dte'' (\<lambda>q. q\<lparr>dte := expiry q - t\<rparr>)"
  have f: "df_filter ?st1 a (\<lambda>q. dte q \<ge> min_dte c \<and> dte q \<le> max_dte c) = (st', b)"
    using assms(4) t True by (simp add: dte_filter_def)
  have p1: "take n ?st1 = take n st" and l1: "length ?st1 = length st"
    using df_set_col_frame [OF assms(2)] by simp_all
  have n1: "n \<le> length ?st1" using l1 assms(1) by simp
  note r = df_filter_frame [OF n1 f]
  have cols: "columns (?st1 ! a) =
      (if ''dte'' \<in> set (columns (st ! a)) then columns (st ! a) else columns (st ! a) @ [''dte''])"
    using assms(3) by (simp add: df_set_col_def)
  show ?thesis
    using r p1 l1 cols by (auto simp: has_col_def)
qed

lemma add_mid_columns:
  "a < length st \<Longrightarrow> has_col (st ! a) c \<Longrightarrow> has_col (add_mid st a ! a) c"
  by (simp add: add_mid_def df_set_col_def has_col_def)

lemma clean_frame:
  assumes cl: "clean c st chain td = (st', res)"
  shows "take (length st) st' = st \<and>
     (\<not> frame_empty (st ! chain) \<longrightarrow>
        (\<forall>out. res = Inr out \<longrightarrow> length st \<le> out \<and> out < length st' \<and>
           has_col (st' ! out) ''mid'' \<and>
           (td \<noteq> None \<and> has_col (st ! chain) ''expiry'' \<longrightarrow> has_col (st' ! out) ''dte'')))"
proof (cases "frame_empty (st ! chain)")
  case True
  then show ?thesis using cl by (simp add: clean_def)
next
  case False
  let ?n = "length st"
  let ?st1 = "st @ [st ! chain]"
  have c1: "df_copy st chain = (?st1, ?n)" by (simp add: df_copy_def alloc_def)
  have t1: "take ?n ?st1 = st" by simp
  show ?thesis
  proof (cases "has_col (?st1 ! ?n) ''bid'' \<and> has_col (?st1 ! ?n) ''ask''")
    case nb: False
    have at: "?st1 ! ?n = st ! chain" by simp
    have "st' = ?st1 \<and> (\<exists>e. res = Inl e)"
    proof (cases "has_col (st ! chain) ''bid''")
      case True
      with nb have "\<not> has_col (st ! chain) ''ask''" by simp
      with True cl False c1 show ?thesis by (auto simp: clean_def at)
    next
      case nobid: False
      with cl False c1 show ?thesis by (auto simp: clean_def at)
    qed
    then show ?thesis using t1 by auto
  next
    case hb: True
    let ?st2 = "add_mid ?st1 ?n"
    have t2: "take ?n ?st2 = st" and l2: "length ?st2 = Suc ?n"
      using add_mid_frame [of ?n ?n ?st1] by simp_all
    have m2: "has_col (?st2 ! ?n) ''mid''"
      by (rule add_mid_has_mid) simp
    have e2: "has_col (st ! chain) ''expiry'' \<Longrightarrow> has_col (?st2 ! ?n) ''expiry''"
      using add_mid_columns [of ?n ?st1 "''expiry''"] by simp
    obtain st3 df3 where f3: "df_filter ?st2 ?n (\<lambda>q. bid q \<le> ask q \<and> bid q \<ge> 0 \<and> ask q > 0) = (st3, df3)"
      by fastforce
    have n2: "?n \<le> length ?st2" using l2 by simp
    note r3 = df_filter_frame [OF n2 f3]
    obtain st4 r4 where f4: "volume_filter c st3 df3 = (st4, r4)" by fastforce
    have n3: "?n \<le> length st3" using r3 n2 by linarith
    note r4 = volume_filter_frame [OF n3 _ _ f4]
    show ?thesis
    proof (cases r4)
      case (Inl e)
      then have "st' = st4 \<and> res = Inl e"
        using cl False c1 hb f3 f4 by (simp add: clean_def Let_def)
      then show ?thesis using r4 r3 t2 by auto
    next
      case (Inr df4)
      have p4: "take ?n st4 = st" "?n \<le> df4" "df4 < length st4"
        "columns (st4 ! df4) = columns (?st2 ! ?n)" "?n \<le> length st4"
        using r4 r3 t2 Inr by auto
      obtain st5 r5 where f5: "oi_filter c st4 df4 = (st5, r5)" by fastforce
      note r5 = oi_filter_frame [OF p4(5) p4(2) p4(3) f5]
      show ?thesis
      proof (cases r5)
        case (Inl e)
        then have "st' = st5 \<and> res = Inl e"
          using cl False c1 hb f3 f4 f5 \<open>r4 = Inr df4\<close> by (simp add: clean_def Let_def)
        then show ?thesis using r5 p4 by auto
      next
        case (Inr df5)
        have p5: "take ?n st5 = st" "?n \<le> df5" "df5 < length st5"
          "columns (st5 ! df5) = columns (?st2 ! ?n)" "?n \<le> length st5"
          using r5 p4 Inr by auto
        obtain st6 df6 where f6: "spread_filter c st5 df5 = (st6, df6)" by fastforce
        note r6 = spread_filter_frame [OF p5(5) p5(2) p5(3) f6]
        have p6: "take ?n st6 = st" "?n \<le> df6" "df6 < length st6"
          "columns (st6 ! df6) = columns (?st2 ! ?n)" "?n \<le> length st6"
          using r6 p5 by auto
        obtain st7 df7 where f7: "dte_filter c td st6 df6 = (st7, df7)" by fastforce
        note r7 = dte_filter_frame [OF p6(5) p6(2) p6(3) f7]
        have h6: "has_col (st6 ! df6) ''mid''"
          "has_col (st ! chain) ''expiry'' \<Longrightarrow> has_col (st6 ! df6) ''expiry''"
          using m2 e2 p6(4) by (simp_all add: has_col_def)
        have p7: "take ?n st7 = st" "?n \<le> length st7" "has_col (st7 ! df7) ''mid''"
          "td \<noteq> None \<and> has_col (st ! chain) ''expiry'' \<longrightarrow> has_col (st7 ! df7) ''dte''"
          using r7 p6 h6 by auto
        have fin: "st' = st7 @ [st7 ! df7] \<and> res = Inr (length st7)"
          using cl False c1 hb f3 f4 f5 f6 f7 \<open>r4 = Inr df4\<close> \<open>r5 = Inr df5\<close>
          by (simp add: clean_def Let_def alloc_def)
        then show ?thesis using p7 False by auto
      qed
    qed
  qed
qed

lemma build_otm_chain_frame:
  assumes b: "build_otm_chain st chain sp r = (st', res)"
  shows "take (length st) st' = st"
proof (cases "frame_empty (st ! chain)")
  case True
  then show ?thesis using b by (simp add: build_otm_chain_def)
next
  case False
  let ?n = "length st"
  let ?st1 = "st @ [st ! chain]"
  let ?st2 = "add_mid ?st1 ?n"
  have t2: "take ?n ?st2 = st" and l2: "length ?st2 = Suc ?n"
    using add_mid_frame [of ?n ?n ?st1] by simp_all
  have "st' = ?st1 \<or> st' = ?st2 \<or> (\<exists>f. st' = ?st2 @ [f])"
    using b False
    by (auto simp: build_otm_chain_def df_copy_def alloc_def Let_def split: if_splits prod.splits)
  then show ?thesis using t2 l2 by auto
qed

text \<open>
  C9. For every store and every chain in it, \<open>clean\<close> and \<open>build_otm_chain\<close> leave
  all the frames that exist before the call as they are, whether the call returns or
  raises: the frames of the old store, the caller's chain among them, are the same
  frames afterwards. The frame that \<open>clean\<close> returns for a chain that is not empty is a
  new one; it has the column \<open>mid\<close>, and the column \<open>dte\<close> when a trade date is given and
  the chain has an \<open>expiry\<close> column.
\<close>

theorem clean_and_build_leave_chain_unchanged:
  "take (length st) (fst (clean c st chain td)) = st \<and>
   take (length st) (fst (build_otm_chain st chain sp r)) = st \<and>
   (chain < length st \<longrightarrow>
      fst (clean c st chain td) ! chain = st ! chain \<and>
      fst (build_otm_chain st chain sp r) ! chain = st ! chain) \<and>
   (\<not> frame_empty (st ! chain) \<longrightarrow>
      (\<forall>out. snd (clean c st chain td) = Inr out \<longrightarrow>
         length st \<le> out \<and> out < length (fst (clean c st chain td)) \<and>
         has_col (fst (clean c st chain td) ! out) ''mid'' \<and>
         (td \<noteq> None \<and> has_col (st ! chain) ''expiry'' \<longrightarrow>
            has_col (fst (clean c st chain td) ! out) ''dte'')))"
proof -
  obtain st1 r1 where c1: "clean c st chain td = (st1, r1)" by fastforce
  obtain st2 r2 where c2: "build_otm_chain st chain sp r = (st2, r2)" by fastforce
  note f1 = clean_frame [OF c1]
  note f2 = build_otm_chain_frame [OF c2]
  have t1: "take (length st) st1 = st" using f1 by simp
  have n1: "st1 ! chain = st ! chain" if "chain < length st"
    using that t1 by (metis nth_take)
  have n2: "st2 ! chain = st ! chain" if "chain < length st"
    using that f2 by (metis nth_take)
  show ?thesis
    unfolding c1 c2 fst_conv snd_conv using f1 f2 n1 n2 by blast
qed

theorem clean_and_build_leave_chain_unchanged_witness:
  "(0::nat) < length [chain_raw] \<and> \<not> frame_empty ([chain_raw] ! 0) \<and>
   has_col ([chain_raw] ! 0) ''expiry'' \<and>
   snd (clean default_cleaner [chain_raw] 0 (Some 0)) = Inr 7 \<and>
   fst (clean default_cleaner [chain_raw] 0 (Some 0)) ! 0 = chain_raw \<and>
   fst (build_otm_chain [chain_raw] 0 100 0) ! 0 = chain_raw \<and>
   has_col (fst (clean default_cleaner [chain_raw] 0 (Some 0)) ! 7) ''mid'' \<and>
   has_col (fst (clean default_cleaner [chain_raw] 0 (Some 0)) ! 7) ''dte'' \<and>
   \<not> has_col chain_raw ''mid'' \<and> \<not> has_col chain_raw ''dte''"
proof -
  have h: "(0::nat) < length [chain_raw]" "\<not> frame_empty ([chain_raw] ! 0)"
    "has_col ([chain_raw] ! 0) ''expiry''" "\<not> has_col chain_raw ''mid''" "\<not> has_col chain_raw ''dte''"
    by (simp_all add: chain_raw_def frame_empty_def has_col_def)
  have out: "snd (clean default_cleaner [chain_raw] 0 (Some 0)) = Inr 7"
    by (simp add: clean_def frame_empty_def has_col_def df_copy_def alloc_def add_mid_def
        df_set_col_def df_filter_def volume_filter_def oi_filter_def spread_filter_def
        dte_filter_def default_cleaner_def chain_raw_def Let_def)
  note th = clean_and_build_leave_chain_unchanged
    [of "[chain_raw]" default_cleaner 0 "Some 0" 100 0]
  from th h out show ?thesis by simp
qed

subsection \<open>Precedence at a strike of the ATM band\<close>

lemma add_atm_calls_keeps:
  "filter (\<lambda>x. strike x = K) res \<noteq> [] \<Longrightarrow>
     filter (\<lambda>x. strike x = K) (fst (add_atm_calls e qs (res, n))) = filter (\<lambda>x. strike x = K) res"
proof (induction qs arbitrary: res n)
  case Nil
  then show ?case by simp
next
  case (Cons q qs)
  show ?case
  proof (cases "filter (\<lambda>x. strike x = strike q) res = []")
    case False
    then show ?thesis using Cons by simp
  next
    case True
    with Cons.prems have ne: "strike q \<noteq> K" by auto
    let ?res = "res @ [otm_row e (strike q) (mid q) ''call'']"
    have f: "filter (\<lambda>x. strike x = K) ?res = filter (\<lambda>x. strike x = K) res"
      using ne by (simp add: otm_row_def)
    with Cons.prems have "filter (\<lambda>x. strike x = K) ?res \<noteq> []" by simp
    from Cons.IH [OF this, of "n + 1"] f True show ?thesis by simp
  qed
qed

lemma add_atm_calls_expiry:
  "\<forall>x\<in>set res. expiry x = e \<Longrightarrow> \<forall>x\<in>set (fst (add_atm_calls e qs (res, n))). expiry x = e"
proof (induction qs arbitrary: res n)
  case Nil
  then show ?case by simp
next
  case (Cons q qs)
  let ?res = "res @ [otm_row e (strike q) (mid q) ''call'']"
  have "\<forall>x\<in>set ?res. expiry x = e"
    using Cons.prems by (simp add: otm_row_def)
  from Cons.IH [OF this, of "n + 1"] Cons.IH [OF Cons.prems, of n] show ?case
    by simp
qed

lemma fst_expiry_results:
  "fst (expiry_results sp r e X) =
     fst (add_atm_calls e
       (filter (\<lambda>q. right q = ''C'' \<and> strike q \<ge> sp * (99 / 100) \<and> strike q \<le> sp * (101 / 100)) X)
       (map (\<lambda>q. otm_row e (strike q) (mid q) ''call'')
                (filter (\<lambda>q. right q = ''C'' \<and> strike q > sp) X)
              @ map (\<lambda>q. otm_row e (strike q)
                       (synthetic_call sp r (real_of_int (dte (hd X)) / 365) q) ''put_synthetic'')
                  (filter (\<lambda>q. synthetic_call sp r (real_of_int (dte (hd X)) / 365) q > 0)
                     (filter (\<lambda>q. right q = ''P'' \<and> strike q < sp) X)),
        length (filter (\<lambda>q. right q = ''C'' \<and> strike q > sp) X)))"
  by (simp add: expiry_results_def Let_def case_prod_beta)

lemma expiry_results_expiry: "\<forall>x\<in>set (fst (expiry_results sp r e X)). expiry x = e"
proof -
  let ?T = "real_of_int (dte (hd X)) / 365"
  let ?res = "map (\<lambda>q. otm_row e (strike q) (mid q) ''call'')
                (filter (\<lambda>q. right q = ''C'' \<and> strike q > sp) X)
              @ map (\<lambda>q. otm_row e (strike q) (synthetic_call sp r ?T q) ''put_synthetic'')
                  (filter (\<lambda>q. synthetic_call sp r ?T q > 0)
                     (filter (\<lambda>q. right q = ''P'' \<and> strike q < sp) X))"
  have "\<forall>x\<in>set ?res. expiry x = e" by (auto simp: otm_row_def)
  from add_atm_calls_expiry [OF this] show ?thesis
    unfolding fst_expiry_results by blast
qed

lemma expiry_results_at_strike:
  assumes K: "K < sp"
    and put: "q \<in> set X" "right q = ''P''" "strike q = K"
      "synthetic_call sp r (real_of_int (dte (hd X)) / 365) q > 0"
  shows "filter (\<lambda>x. strike x = K) (fst (expiry_results sp r e X)) =
     map (\<lambda>q. otm_row e K (synthetic_call sp r (real_of_int (dte (hd X)) / 365) q) ''put_synthetic'')
       (filter (\<lambda>q. right q = ''P'' \<and> strike q = K \<and>
                  synthetic_call sp r (real_of_int (dte (hd X)) / 365) q > 0) X)"
proof -
  let ?T = "real_of_int (dte (hd X)) / 365"
  let ?calls = "filter (\<lambda>q. right q = ''C'' \<and> strike q > sp) X"
  let ?kept = "filter (\<lambda>q. synthetic_call sp r ?T q > 0)
                     (filter (\<lambda>q. right q = ''P'' \<and> strike q < sp) X)"
  let ?res = "map (\<lambda>q. otm_row e (strike q) (mid q) ''call'') ?calls
              @ map (\<lambda>q. otm_row e (strike q) (synthetic_call sp r ?T q) ''put_synthetic'') ?kept"
  let ?atm = "filter (\<lambda>q. right q = ''C'' \<and> strike q \<ge> sp * (99 / 100)
                                  \<and> strike q \<le> sp * (101 / 100)) X"
  have c: "filter (\<lambda>x. strike x = K) (map (\<lambda>q. otm_row e (strike q) (mid q) ''call'') ?calls) = []"
    using K by (auto simp: filter_empty_conv otm_row_def)
  have p: "filter (\<lambda>x. strike x = K)
        (map (\<lambda>q. otm_row e (strike q) (synthetic_call sp r ?T q) ''put_synthetic'') ?kept) =
      map (\<lambda>q. otm_row e K (synthetic_call sp r ?T q) ''put_synthetic'')
        (filter (\<lambda>q. right q = ''P'' \<and> strike q = K \<and> synthetic_call sp r ?T q > 0) X)"
  proof -
    have "filter (\<lambda>x. strike x = K)
        (map (\<lambda>q. otm_row e (strike q) (synthetic_call sp r ?T q) ''put_synthetic'') ?kept) =
      map (\<lambda>q. otm_row e (strike q) (synthetic_call sp r ?T q) ''put_synthetic'')
        (filter (\<lambda>q. strike q = K) ?kept)"
      by (simp add: filter_map comp_def otm_row_def)
    also have "filter (\<lambda>q. strike q = K) ?kept =
        filter (\<lambda>q. right q = ''P'' \<and> strike q = K \<and> synthetic_call sp r ?T q > 0) X"
      using K by (auto intro!: filter_cong)
    also have "map (\<lambda>q. otm_row e (strike q) (synthetic_call sp r ?T q) ''put_synthetic'')
        (filter (\<lambda>q. right q = ''P'' \<and> strike q = K \<and> synthetic_call sp r ?T q > 0) X) =
      map (\<lambda>q. otm_row e K (synthetic_call sp r ?T q) ''put_synthetic'')
        (filter (\<lambda>q. right q = ''P'' \<and> strike q = K \<and> synthetic_call sp r ?T q > 0) X)"
      by (intro map_cong) auto
    finally show ?thesis .
  qed
  have fr: "filter (\<lambda>x. strike x = K) ?res =
      map (\<lambda>q. otm_row e K (synthetic_call sp r ?T q) ''put_synthetic'')
        (filter (\<lambda>q. right q = ''P'' \<and> strike q = K \<and> synthetic_call sp r ?T q > 0) X)"
    using c p by simp
  have "q \<in> set (filter (\<lambda>q. right q = ''P'' \<and> strike q = K \<and> synthetic_call sp r ?T q > 0) X)"
    using put by simp
  then have ne: "filter (\<lambda>x. strike x = K) ?res \<noteq> []"
    unfolding fr by (auto simp: filter_empty_conv)
  have "fst (expiry_results sp r e X) = fst (add_atm_calls e ?atm (?res, length ?calls))"
    by (rule fst_expiry_results)
  then show ?thesis
    using add_atm_calls_keeps [OF ne, of e ?atm "length ?calls"] fr by simp
qed

lemma fst_otm_loop:
  "fst (otm_loop sp r df es (results, quality)) =
     results @ concat (map (\<lambda>e. fst (expiry_results sp r e (filter (\<lambda>q. expiry q = e) df))) es)"
proof (induction es arbitrary: results quality)
  case Nil
  then show ?case by simp
next
  case (Cons e es)
  show ?case
    by (simp add: Let_def case_prod_beta Cons.IH)
qed

lemma filter_concat_expiry:
  assumes "distinct es" and "e \<in> set es" and "\<And>e' x. x \<in> set (g e') \<Longrightarrow> expiry x = e'"
  shows "filter (\<lambda>x. expiry x = e \<and> P x) (concat (map g es)) = filter P (g e)"
  using assms(1,2)
proof (induction es)
  case Nil
  then show ?case by simp
next
  case (Cons a es)
  show ?case
  proof (cases "a = e")
    case True
    then have "e \<notin> set es" using Cons.prems by simp
    then have "filter (\<lambda>x. expiry x = e \<and> P x) (concat (map g es)) = []"
      using assms(3) by (auto simp: filter_empty_conv)
    moreover have "filter (\<lambda>x. expiry x = e \<and> P x) (g e) = filter P (g e)"
      using assms(3) by (intro filter_cong) auto
    ultimately show ?thesis using True by simp
  next
    case False
    then have "filter (\<lambda>x. expiry x = e \<and> P x) (g a) = []"
      using assms(3) by (auto simp: filter_empty_conv)
    moreover have "filter (\<lambda>x. expiry x = e \<and> P x) (concat (map g es)) = filter P (g e)"
      using Cons False by simp
    ultimately show ?thesis by simp
  qed
qed

lemma unique_set: "set (unique xs) = set xs" and unique_distinct: "distinct (unique xs)"
  by (simp_all add: unique_def)

lemma otm_results_at:
  assumes put: "p \<in> set df" "right p = ''P''" "expiry p = e" "strike p = K" "K < sp"
      "synthetic_call sp r T p > 0"
    and T: "T = real_of_int (dte (hd (filter (\<lambda>q. expiry q = e) df))) / 365"
  shows "filter (\<lambda>x. expiry x = e \<and> strike x = K)
           (fst (otm_loop sp r df (unique (map expiry df)) ([], Map.empty))) =
         map (\<lambda>q. otm_row e K (synthetic_call sp r T q) ''put_synthetic'')
           (filter (\<lambda>q. expiry q = e \<and> right q = ''P'' \<and> strike q = K \<and>
                      synthetic_call sp r T q > 0) df)"
proof -
  let ?X = "filter (\<lambda>q. expiry q = e) df"
  let ?g = "\<lambda>e. fst (expiry_results sp r e (filter (\<lambda>q. expiry q = e) df))"
  have e_in: "e \<in> set (unique (map expiry df))"
    using put by (auto simp: unique_set)
  have pX: "p \<in> set ?X" using put by simp
  have "filter (\<lambda>x. expiry x = e \<and> strike x = K)
           (fst (otm_loop sp r df (unique (map expiry df)) ([], Map.empty))) =
        filter (\<lambda>x. strike x = K) (?g e)"
    unfolding fst_otm_loop append_Nil
    by (rule filter_concat_expiry [OF unique_distinct e_in]) (use expiry_results_expiry in blast)
  also have "\<dots> = map (\<lambda>q. otm_row e K (synthetic_call sp r T q) ''put_synthetic'')
       (filter (\<lambda>q. right q = ''P'' \<and> strike q = K \<and> synthetic_call sp r T q > 0) ?X)"
    using expiry_results_at_strike [OF put(5) pX put(2) put(4), of r e] put(6) unfolding T by simp
  also have "filter (\<lambda>q. right q = ''P'' \<and> strike q = K \<and> synthetic_call sp r T q > 0) ?X =
      filter (\<lambda>q. expiry q = e \<and> right q = ''P'' \<and> strike q = K \<and>
                      synthetic_call sp r T q > 0) df"
    by simp
  finally show ?thesis .
qed

text \<open>
  C3 (amended). In \<open>build_otm_chain\<close>, for every cleaned chain (not empty, with the
  columns \<open>mid\<close>, \<open>dte\<close>, \<open>expiry\<close>, \<open>right\<close>, \<open>strike\<close>), spot and rate: whenever a put
  below the spot with a positive synthetic price and a real call in the ATM band exist at
  the same (expiry, strike), the rows of the OTM chain at that (expiry, strike) are
  exactly the put-derived synthetic rows, one for each such put quote in the order of
  the chain, with mid \<open>P + S - K e\<^sup>-\<^sup>r\<^sup>T\<close>; none of them is the call. With a single put
  quote at that (expiry, strike) there is exactly one row.
\<close>

theorem build_otm_chain_synthetic_precedes_atm_call:
  assumes ne: "\<not> frame_empty (st ! chain)"
    and cols: "has_col (st ! chain) ''mid''" "has_col (st ! chain) ''dte''"
      "has_col (st ! chain) ''expiry''" "has_col (st ! chain) ''right''"
      "has_col (st ! chain) ''strike''"
    and put: "p \<in> set (rows (st ! chain))" "right p = ''P''" "expiry p = e" "strike p = K"
      "K < sp" "synthetic_call sp r T p > 0"
    and T: "T = real_of_int (dte (hd (filter (\<lambda>q. expiry q = e) (rows (st ! chain))))) / 365"
    and call: "c \<in> set (rows (st ! chain))" "right c = ''C''" "expiry c = e" "strike c = K"
      "sp * (99 / 100) \<le> K" "K \<le> sp * (101 / 100)"
  shows "\<exists>st' out qm. build_otm_chain st chain sp r = (st', Inr (out, qm)) \<and>
      filter (\<lambda>x. expiry x = e \<and> strike x = K) (rows (st' ! out)) =
        map (\<lambda>q. otm_row e K (synthetic_call sp r T q) ''put_synthetic'')
          (filter (\<lambda>q. expiry q = e \<and> right q = ''P'' \<and> strike q = K \<and>
                     synthetic_call sp r T q > 0) (rows (st ! chain))) \<and>
      (\<forall>x\<in>set (rows (st' ! out)). expiry x = e \<and> strike x = K \<longrightarrow> source x = ''put_synthetic'') \<and>
      (filter (\<lambda>q. expiry q = e \<and> right q = ''P'' \<and> strike q = K) (rows (st ! chain)) = [p] \<longrightarrow>
         filter (\<lambda>x. expiry x = e \<and> strike x = K) (rows (st' ! out)) =
           [otm_row e K (mid p + sp - K * exp (- r * T)) ''put_synthetic''])"
proof -
  let ?df = "rows (st ! chain)"
  let ?n = "length st"
  let ?st1 = "st @ [st ! chain]"
  let ?results = "fst (otm_loop sp r ?df (unique (map expiry ?df)) ([], Map.empty))"
  let ?sorted = "sort_key (\<lambda>q. (expiry q, strike q)) ?results"
  let ?out = "\<lparr>columns = otm_columns, rows = ?sorted\<rparr>"
  let ?synth = "map (\<lambda>q. otm_row e K (synthetic_call sp r T q) ''put_synthetic'')
          (filter (\<lambda>q. expiry q = e \<and> right q = ''P'' \<and> strike q = K \<and>
                     synthetic_call sp r T q > 0) ?df)"
  have at: "filter (\<lambda>x. expiry x = e \<and> strike x = K) ?results = ?synth"
    by (rule otm_results_at [OF put T])
  have pin: "p \<in> set (filter (\<lambda>q. expiry q = e \<and> right q = ''P'' \<and> strike q = K \<and>
                     synthetic_call sp r T q > 0) ?df)"
    using put by simp
  then have sne: "?synth \<noteq> []" by (auto simp: filter_empty_conv)
  then have rne: "?results \<noteq> []" using at by auto
  have am: "add_mid ?st1 ?n = ?st1"
    using cols(1) by (simp add: add_mid_def)
  have b: "build_otm_chain st chain sp r =
      (?st1 @ [?out], Inr (Suc ?n, snd (otm_loop sp r ?df (unique (map expiry ?df)) ([], Map.empty))))"
    using ne cols rne
    by (simp add: build_otm_chain_def df_copy_def alloc_def am Let_def case_prod_beta)
  have key: "(\<lambda>x. expiry x = e \<and> strike x = K) = (\<lambda>x. (expiry x, strike x) = (e, K))"
    by auto
  have fs: "filter (\<lambda>x. expiry x = e \<and> strike x = K) ?sorted = ?synth"
    unfolding key sort_key_stable using at unfolding key .
  have o: "rows ((?st1 @ [?out]) ! Suc ?n) = ?sorted"
    by (simp add: nth_append)
  have src: "\<forall>x\<in>set ?sorted. expiry x = e \<and> strike x = K \<longrightarrow> source x = ''put_synthetic''"
  proof (intro ballI impI)
    fix x assume "x \<in> set ?sorted" "expiry x = e \<and> strike x = K"
    then have "x \<in> set (filter (\<lambda>x. expiry x = e \<and> strike x = K) ?sorted)" by simp
    then have "x \<in> set ?synth" unfolding fs .
    then show "source x = ''put_synthetic''" by (auto simp: otm_row_def)
  qed
  have one: "filter (\<lambda>x. expiry x = e \<and> strike x = K) ?sorted =
      [otm_row e K (mid p + sp - K * exp (- r * T)) ''put_synthetic'']"
    if u: "filter (\<lambda>q. expiry q = e \<and> right q = ''P'' \<and> strike q = K) ?df = [p]"
  proof -
    have "filter (\<lambda>q. expiry q = e \<and> right q = ''P'' \<and> strike q = K \<and>
                     synthetic_call sp r T q > 0) ?df =
        filter (\<lambda>q. synthetic_call sp r T q > 0)
          (filter (\<lambda>q. expiry q = e \<and> right q = ''P'' \<and> strike q = K) ?df)"
      by (simp add: conj_commute conj_left_commute)
    also have "\<dots> = [p]" unfolding u using put(6) by simp
    finally show ?thesis
      unfolding fs using put(4) by (simp add: synthetic_call_def)
  qed
  show ?thesis
  proof (intro exI conjI)
    show "build_otm_chain st chain sp r =
      (?st1 @ [?out], Inr (Suc ?n, snd (otm_loop sp r ?df (unique (map expiry ?df)) ([], Map.empty))))"
      by (rule b)
    show "filter (\<lambda>x. expiry x = e \<and> strike x = K) (rows ((?st1 @ [?out]) ! Suc ?n)) = ?synth"
      unfolding o by (rule fs)
    show "\<forall>x\<in>set (rows ((?st1 @ [?out]) ! Suc ?n)).
        expiry x = e \<and> strike x = K \<longrightarrow> source x = ''put_synthetic''"
      unfolding o by (rule src)
    show "filter (\<lambda>q. expiry q = e \<and> right q = ''P'' \<and> strike q = K) ?df = [p] \<longrightarrow>
         filter (\<lambda>x. expiry x = e \<and> strike x = K) (rows ((?st1 @ [?out]) ! Suc ?n)) =
           [otm_row e K (mid p + sp - K * exp (- r * T)) ''put_synthetic'']"
      unfolding o using one by blast
  qed
qed

theorem build_otm_chain_synthetic_precedes_atm_call_witness:
  "\<not> frame_empty ([chain_atm] ! 0) \<and> has_col ([chain_atm] ! 0) ''mid'' \<and>
   has_col ([chain_atm] ! 0) ''dte'' \<and>
   rows chain_atm ! 0 \<in> set (rows ([chain_atm] ! 0)) \<and> right (rows chain_atm ! 0) = ''P'' \<and>
   strike (rows chain_atm ! 0) = 199 / 2 \<and>
   synthetic_call 100 0 (30 / 365) (rows chain_atm ! 0) > 0 \<and>
   rows chain_atm ! 1 \<in> set (rows ([chain_atm] ! 0)) \<and> right (rows chain_atm ! 1) = ''C'' \<and>
   strike (rows chain_atm ! 1) = 199 / 2 \<and>
   (\<exists>st' out qm. build_otm_chain [chain_atm] 0 100 0 = (st', Inr (out, qm)) \<and>
      filter (\<lambda>x. expiry x = 30 \<and> strike x = 199 / 2) (rows (st' ! out)) =
        [otm_row 30 (199 / 2) (5 / 2) ''put_synthetic''])"
proof -
  let ?p = "rows chain_atm ! 0"
  let ?c = "rows chain_atm ! 1"
  have ne: "\<not> frame_empty ([chain_atm] ! 0)"
    by (simp add: chain_atm_def frame_empty_def)
  have cols: "has_col ([chain_atm] ! 0) ''mid''" "has_col ([chain_atm] ! 0) ''dte''"
      "has_col ([chain_atm] ! 0) ''expiry''" "has_col ([chain_atm] ! 0) ''right''"
      "has_col ([chain_atm] ! 0) ''strike''"
    by (simp_all add: chain_atm_def has_col_def)
  have put: "?p \<in> set (rows ([chain_atm] ! 0))" "right ?p = ''P''" "expiry ?p = 30"
      "strike ?p = 199 / 2" "(199 / 2 :: real) < 100" "synthetic_call 100 0 (30 / 365) ?p > 0"
    by (simp_all add: chain_atm_def synthetic_call_def)
  have T: "(30 / 365 :: real) =
      real_of_int (dte (hd (filter (\<lambda>q. expiry q = 30) (rows ([chain_atm] ! 0))))) / 365"
    by (simp add: chain_atm_def)
  have call: "?c \<in> set (rows ([chain_atm] ! 0))" "right ?c = ''C''" "expiry ?c = 30"
      "strike ?c = 199 / 2" "(100::real) * (99 / 100) \<le> 199 / 2" "(199 / 2 :: real) \<le> 100 * (101 / 100)"
    by (simp_all add: chain_atm_def)
  have u: "filter (\<lambda>q. expiry q = 30 \<and> right q = ''P'' \<and> strike q = 199 / 2)
      (rows ([chain_atm] ! 0)) = [?p]"
    by (simp add: chain_atm_def)
  have m: "mid ?p + 100 - 199 / 2 * exp (- 0 * (30 / 365)) = 5 / 2"
    by (simp add: chain_atm_def)
  from build_otm_chain_synthetic_precedes_atm_call [OF ne cols put T call]
  obtain st' out qm where "build_otm_chain [chain_atm] 0 100 0 = (st', Inr (out, qm))"
    and "filter (\<lambda>q. expiry q = 30 \<and> right q = ''P'' \<and> strike q = 199 / 2)
           (rows ([chain_atm] ! 0)) = [?p] \<longrightarrow>
         filter (\<lambda>x. expiry x = 30 \<and> strike x = 199 / 2) (rows (st' ! out)) =
           [otm_row 30 (199 / 2) (mid ?p + 100 - 199 / 2 * exp (- 0 * (30 / 365))) ''put_synthetic'']"
    by blast
  with u m have "\<exists>st' out qm. build_otm_chain [chain_atm] 0 100 0 = (st', Inr (out, qm)) \<and>
      filter (\<lambda>x. expiry x = 30 \<and> strike x = 199 / 2) (rows (st' ! out)) =
        [otm_row 30 (199 / 2) (5 / 2) ''put_synthetic'']"
    by auto
  then show ?thesis using ne cols put call by simp
qed

text \<open>
  The claim as stated, that the real call wins, fails: in a cleaned chain with the put
  (mid 2) and the call (mid 3) at the strike 99.5, spot 100 and rate 0, the strike is
  below the spot, so the put is converted first; the ATM-band call finds its strike
  present and is skipped. The only row is the synthetic one, with mid 2.5.
\<close>

theorem atm_call_loses_to_synthetic:
  "\<not> frame_empty ([chain_atm] ! 0) \<and>
   rows chain_atm ! 1 = \<lparr>expiry = 30, strike = 199 / 2, right = ''C'', bid = 29 / 10, ask = 31 / 10,
              volume = 50, open_interest = 500, mid = 3, dte = 30, source = []\<rparr> \<and>
   (100::real) * (99 / 100) \<le> 199 / 2 \<and> (199 / 2 :: real) \<le> 100 * (101 / 100) \<and>
   map_sum id fst (snd (build_otm_chain [chain_atm] 0 100 0)) = Inr 2 \<and>
   rows (fst (build_otm_chain [chain_atm] 0 100 0) ! 2) =
     [otm_row 30 (199 / 2) (5 / 2) ''put_synthetic''] \<and>
   mid (otm_row 30 (199 / 2) (5 / 2) ''put_synthetic'') \<noteq> 3"
  by (simp add: build_otm_chain_def frame_empty_def has_col_def df_copy_def alloc_def add_mid_def
      chain_atm_def unique_def expiry_results_def synthetic_call_def otm_row_def otm_columns_def
      Let_def)

subsection \<open>Flat extrapolation of the smoothed call price\<close>

lemma smooth_closure_nonneg: "0 \<le> smooth_closure sp lo hi K"
  by (simp add: smooth_closure_def)

lemma Min_ln:
  assumes "finite S" "S \<noteq> {}" "\<forall>x\<in>S. 0 < (x::real)"
  shows "Min (ln ` S) = ln (Min S)"
proof (rule Min_eqI)
  show "finite (ln ` S)" using assms by simp
  show "ln (Min S) \<in> ln ` S" using assms by simp
  fix y assume "y \<in> ln ` S"
  then obtain x where x: "x \<in> S" "y = ln x" by auto
  have "Min S \<le> x" using assms x by simp
  moreover have "0 < Min S" using assms by simp
  ultimately show "ln (Min S) \<le> y" using x assms by simp
qed

lemma Max_ln:
  assumes "finite S" "S \<noteq> {}" "\<forall>x\<in>S. 0 < (x::real)"
  shows "Max (ln ` S) = ln (Max S)"
proof (rule Max_eqI)
  show "finite (ln ` S)" using assms by simp
  show "ln (Max S) \<in> ln ` S" using assms by simp
  fix y assume "y \<in> ln ` S"
  then obtain x where x: "x \<in> S" "y = ln x" by auto
  have "x \<le> Max S" using assms x by simp
  moreover have "0 < x" using assms x by simp
  ultimately show "y \<le> ln (Max S)" using x assms by simp
qed

lemma clip_high: "lo \<le> hi \<Longrightarrow> hi \<le> b \<Longrightarrow> b \<le> a \<Longrightarrow> clip a lo hi = clip b lo hi"
  by (simp add: clip_def max_def min_def)

lemma clip_low: "lo \<le> hi \<Longrightarrow> a \<le> lo \<Longrightarrow> clip a lo hi = lo"
  by (simp add: clip_def max_def min_def)

lemma clip_below:
  assumes "0 < kmin" "kmin \<le> kmax" "K \<le> kmin"
  shows "clip (ln (max K (1 / 10 ^ 10))) (ln kmin) (ln kmax) =
         clip (ln (max kmin (1 / 10 ^ 10))) (ln kmin) (ln kmax)"
proof (cases "kmin < 1 / 10 ^ 10")
  case True
  then have "max K (1 / 10 ^ 10) = max kmin (1 / 10 ^ 10)" using assms by (simp add: max_def)
  then show ?thesis by simp
next
  case False
  then have ge: "1 / 10 ^ 10 \<le> kmin" by simp
  have lh: "ln kmin \<le> ln kmax" using assms by simp
  have "max K (1 / 10 ^ 10) \<le> kmin" using assms ge by simp
  moreover have "0 < max K (1 / 10 ^ 10)" by (simp add: max_def)
  ultimately have "ln (max K (1 / 10 ^ 10)) \<le> ln kmin" using assms(1) by simp
  moreover have "max kmin (1 / 10 ^ 10) = kmin" using ge by (simp add: max_def)
  ultimately show ?thesis using lh clip_low [of "ln kmin" "ln kmax"] by simp
qed

lemma clip_above:
  assumes "0 < kmin" "kmin \<le> kmax" "kmax \<le> K"
  shows "clip (ln (max K (1 / 10 ^ 10))) (ln kmin) (ln kmax) =
         clip (ln (max kmax (1 / 10 ^ 10))) (ln kmin) (ln kmax)"
proof -
  have pos: "0 < kmax" using assms by simp
  have lh: "ln kmin \<le> ln kmax" using assms by simp
  have "max kmax (1 / 10 ^ 10) \<le> max K (1 / 10 ^ 10)" using assms by (simp add: max_def)
  moreover have "0 < max kmax (1 / 10 ^ 10)" by (simp add: max_def)
  ultimately have a: "ln (max kmax (1 / 10 ^ 10)) \<le> ln (max K (1 / 10 ^ 10))" by simp
  have "kmax \<le> max kmax (1 / 10 ^ 10)" by simp
  then have b: "ln kmax \<le> ln (max kmax (1 / 10 ^ 10))" using pos by simp
  show ?thesis by (rule clip_high [OF lh b a])
qed

lemma post_init_nonzero:
  "strike_min s \<noteq> 0 \<Longrightarrow> strike_max s \<noteq> 0 \<Longrightarrow> post_init s = Inr s"
  by (simp add: post_init_def)

lemma fit_result:
  assumes "fit mk sm chain spot_opt = Inr sr"
  shows "\<exists>ks spl. ks \<noteq> [] \<and> (\<forall>k\<in>set ks. 0 < k) \<and> sr_strikes sr = ks \<and>
     strike_min sr = Min (set ks) \<and> strike_max sr = Max (set ks) \<and> spline sr = Some spl \<and>
     smooth_fn sr = smooth_closure spl (ln (Min (set ks))) (ln (Max (set ks)))"
proof -
  define calls0 where "calls0 = (if has_col chain ''right'' then filter (\<lambda>q. right q = ''C'') (rows chain)
                    else rows chain)"
  define calls where "calls = (if has_col chain ''mid'' then calls0
                           else map (\<lambda>q. q\<lparr>mid := (bid q + ask q) / 2\<rparr>) calls0)"
  define valid where "valid = filter (\<lambda>q. mid q > 0 \<and> strike q > 0) (sort_key strike calls)"
  define ks where "ks = sort (remdups (map strike valid))"
  define ps where "ps = map (\<lambda>k. sum_list (map mid (filter (\<lambda>q. strike q = k) valid))
                                        / real (length (filter (\<lambda>q. strike q = k) valid))) ks"
  define sp where "sp = (case spot_opt of None \<Rightarrow> ks ! (length ks div 2) | Some s \<Rightarrow> s)"
  define s where "s = (case smoothing_factor sm of
                                         Some f \<Rightarrow> f * real (length ks)
                                       | None \<Rightarrow> real (length ks) * var ps * (1 / 100))"
  define mkres where "mkres = mk (map ln ks) ps s"
  have unfolded: "fit mk sm chain spot_opt =
     (if \<not> has_col chain ''mid'' \<and> \<not> has_col chain ''bid'' then Inl (KeyError ''bid'')
         else if \<not> has_col chain ''mid'' \<and> \<not> has_col chain ''ask'' then Inl (KeyError ''ask'')
         else if length calls < min_points sm
                 then Inl (ValueError (''Need at least '' @ show_nat (min_points sm)
                             @ '' calls, got '' @ show_nat (length calls)))
                 else if \<not> has_col chain ''strike'' then Inl (KeyError ''strike'')
                 else if length ks < min_points sm
                         then Inl (ValueError (''Not enough valid prices after cleaning: ''
                                     @ show_nat (length ks)))
                         else if ks = [] then Inl IndexError
                         else case mkres of
                                   Inl e \<Rightarrow> Inl e
                                 | Inr spl \<Rightarrow>
                                     post_init
                                       \<lparr>sr_strikes = ks, prices = ps,
                                        smooth_fn = smooth_closure spl (array_min (map ln ks))
                                                      (array_max (map ln ks)),
                                        spot_price = sp, strike_min = array_min ks,
                                        strike_max = array_max ks, spline = Some spl\<rparr>)"
    unfolding fit_def Let_def calls0_def calls_def valid_def ks_def ps_def sp_def s_def mkres_def
    by (rule refl)
  from assms unfolded obtain spl where ne: "ks \<noteq> []" and mk: "mkres = Inr spl"
    and pi: "post_init \<lparr>sr_strikes = ks, prices = ps,
                smooth_fn = smooth_closure spl (array_min (map ln ks)) (array_max (map ln ks)),
                spot_price = sp, strike_min = array_min ks,
                strike_max = array_max ks, spline = Some spl\<rparr> = Inr sr"
    by (auto split: if_splits sum.splits)
  have pos: "\<forall>k\<in>set ks. 0 < k"
    by (auto simp: ks_def valid_def)
  have fin: "finite (set ks)" "set ks \<noteq> {}" using ne by simp_all
  have mn: "array_min ks = Min (set ks)" and mx: "array_max ks = Max (set ks)"
    using ne by (simp_all add: array_min_eq_Min array_max_eq_Max)
  have mnp: "0 < Min (set ks)" and mxp: "0 < Max (set ks)"
    using pos Min_in [OF fin] Max_in [OF fin] by blast+
  have lmn: "array_min (map ln ks) = ln (Min (set ks))"
    using ne Min_ln [OF fin pos] by (simp add: array_min_eq_Min)
  have lmx: "array_max (map ln ks) = ln (Max (set ks))"
    using ne Max_ln [OF fin pos] by (simp add: array_max_eq_Max)
  have "sr = \<lparr>sr_strikes = ks, prices = ps,
                smooth_fn = smooth_closure spl (ln (Min (set ks))) (ln (Max (set ks))),
                spot_price = sp, strike_min = Min (set ks),
                strike_max = Max (set ks), spline = Some spl\<rparr>"
    using pi mnp mxp unfolding mn mx lmn lmx by (simp add: post_init_def)
  then show ?thesis using ne pos by auto
qed

text \<open>
  C6. For every smoothing result that \<open>fit\<close> returns, with strike bounds
  \<open>[strike_min, strike_max]\<close>, the callable is flat outside the bounds and non-negative:
  \<open>C(K) = C(strike_min)\<close> for every \<open>K \<le> strike_min\<close>, \<open>C(K) = C(strike_max)\<close> for every
  \<open>K \<ge> strike_max\<close>, and \<open>C(K) \<ge> 0\<close> for every \<open>K\<close>, whatever spline the constructor
  returned.
\<close>

theorem fit_flat_extrapolation:
  assumes "fit mk sm chain spot_opt = Inr sr"
  shows "(K \<le> strike_min sr \<longrightarrow> smooth_fn sr K = smooth_fn sr (strike_min sr)) \<and>
         (strike_max sr \<le> K \<longrightarrow> smooth_fn sr K = smooth_fn sr (strike_max sr)) \<and>
         0 \<le> smooth_fn sr K"
proof -
  from fit_result [OF assms] obtain ks spl where ne: "ks \<noteq> []" and pos: "\<forall>k\<in>set ks. 0 < k"
    and mn: "strike_min sr = Min (set ks)" and mx: "strike_max sr = Max (set ks)"
    and fn: "smooth_fn sr = smooth_closure spl (ln (Min (set ks))) (ln (Max (set ks)))"
    by blast
  have fin: "finite (set ks)" "set ks \<noteq> {}" using ne by simp_all
  have p: "0 < Min (set ks)" using pos Min_in [OF fin] by blast
  have le: "Min (set ks) \<le> Max (set ks)" using fin by simp
  show ?thesis
    unfolding fn mn mx
    using clip_below [OF p le, of K] clip_above [OF p le, of K]
    by (simp add: smooth_closure_def)
qed

lemma fit_otm_four:
  "\<exists>sr. fit (\<lambda>x y s. Inr sp_id) smoother4 otm_four (Some 100) = Inr sr \<and>
     strike_min sr = 90 \<and> strike_max sr = 110"
proof -
  have c: "has_col otm_four ''mid''" "has_col otm_four ''strike''" "\<not> has_col otm_four ''right''"
    by (simp_all add: has_col_def otm_four_def otm_columns_def)
  have s: "sort_key strike (rows otm_four) = rows otm_four"
    by (simp add: otm_four_def otm_row_def)
  have v: "filter (\<lambda>q. mid q > 0 \<and> strike q > 0) (rows otm_four) = rows otm_four"
    by (simp add: otm_four_def otm_row_def)
  have k: "map strike (rows otm_four) = [90, 95, 105, 110]"
    by (simp add: otm_four_def otm_row_def)
  have u: "sort (remdups [90, 95, 105, 110 :: real]) = [90, 95, 105, 110]"
    by simp
  have l: "length (rows otm_four) = 4"
    by (simp add: otm_four_def)
  show ?thesis
    unfolding fit_def Let_def
    by (simp add: c s v k u l smoother4_def post_init_def array_min_def array_max_def)
qed

theorem fit_flat_extrapolation_witness:
  "\<exists>sr. fit (\<lambda>x y s. Inr sp_id) smoother4 otm_four (Some 100) = Inr sr \<and>
     smooth_fn sr 50 = smooth_fn sr (strike_min sr) \<and>
     smooth_fn sr 200 = smooth_fn sr (strike_max sr) \<and>
     0 \<le> smooth_fn sr 50"
proof -
  from fit_otm_four obtain sr where f: "fit (\<lambda>x y s. Inr sp_id) smoother4 otm_four (Some 100) = Inr sr"
    and b: "strike_min sr = 90 \<and> strike_max sr = 110"
    by blast
  have "(50::real) \<le> strike_min sr" "strike_max sr \<le> (200::real)" using b by simp_all
  with fit_flat_extrapolation [OF f, of 50] fit_flat_extrapolation [OF f, of 200] f
  show ?thesis by blast
qed

subsection \<open>The pipeline isolates the expiries\<close>

















end
